theory Spec2Isabelle
  imports Main "HOL-Library.Signed_Division"
begin

section \<open>Common data\<close>

text \<open>
  The packages \<open>common\<close> and \<open>sdk\<close> are not among the sources. Their value types are
  modelled by what the code under study does with them: a chain, an address, a
  transaction id and a public key are strings; an \<open>sdk.Uint\<close> is a natural number
  below \<open>2^256\<close> (the library wraps an arbitrary-precision integer and panics when a
  result does not fit 256 bits); an \<open>int64\<close> block height is an integer. A panic is
  modelled as the error it carries, returned with the state at the point of the panic.
\<close>

type_synonym Chain = string
type_synonym Address = string
type_synonym TxID = string
type_synonym PubKey = string
type_synonym AccAddress = string

record Asset =
  asset_Chain :: Chain
  asset_Symbol :: string
  asset_Ticker :: string

text \<open>The zero values \<open>Asset{}\<close> and \<open>common.NoAddress\<close> (the empty address).\<close>

definition EmptyAsset :: Asset where
  "EmptyAsset = \<lparr>asset_Chain = [], asset_Symbol = [], asset_Ticker = []\<rparr>"

definition NoAddress :: Address where
  "NoAddress = []"

record Coin =
  coin_Asset :: Asset
  coin_Amount :: nat

text \<open>
  Every error value the modelled code can return. An error produced inside a library
  call is opaque to the code and is carried as \<open>ErrExternal\<close> with its message.
\<close>

datatype error =
    ErrExternal string
  | ErrMemoEmpty
  | ErrInvalidTxType string
  | ErrCannotParseMemo nat
  | ErrStakeNoAddress
  | ErrInvalidUnstakeMemo
  | ErrWithdrawAmountInvalid string
  | ErrMissingSwapParameters
  | ErrSwapPriceLimitInvalid string
  | ErrNotEnoughParameters
  | ErrInvalidThorchainAddress string error
  | ErrInvalidBlockHeight string error
  | ErrTxTypeNotSupported string
  | ErrDb string error
  | ErrFailGetVaults error
  | ErrFailGetActiveNodeAccounts
  | ErrNoActiveAccounts
  | ErrFailSaveVault error
  | ErrFailTriggerKeygen error
  | ErrBadVersion
  | ErrDivideByZero
  | ErrUintOverflow
  | ErrTotalRuneZero
  | ErrTotalAssetZero
  | ErrNoIssuanceRule

section \<open>Memo parser\<close>

datatype TxType =
    txUnknown
  | txStake
  | txUnstake
  | txSwap
  | txOutbound
  | txAdd
  | txGas
  | txBond
  | txLeave
  | txYggdrasilFund
  | txYggdrasilReturn
  | txReserve
  | txRefund
  | txMigrate
  | txRagnarok

definition stringToTxTypeMap :: "(string \<times> TxType) list" where
  "stringToTxTypeMap =
    [(''stake'', txStake), (''st'', txStake), (''+'', txStake),
     (''withdraw'', txUnstake), (''unstake'', txUnstake), (''wd'', txUnstake),
     (''-'', txUnstake),
     (''swap'', txSwap), (''s'', txSwap), (''='', txSwap),
     (''outbound'', txOutbound),
     (''add'', txAdd), (''a'', txAdd), (''%'', txAdd),
     (''gas'', txGas), (''g'', txGas), (''$'', txGas),
     (''bond'', txBond),
     (''leave'', txLeave),
     (''yggdrasil+'', txYggdrasilFund),
     (''yggdrasil-'', txYggdrasilReturn),
     (''reserve'', txReserve),
     (''refund'', txRefund),
     (''migrate'', txMigrate),
     (''ragnarok'', txRagnarok)]"

definition txToStringMap :: "(TxType \<times> string) list" where
  "txToStringMap =
    [(txStake, ''stake''), (txUnstake, ''unstake''), (txSwap, ''swap''),
     (txOutbound, ''outbound''), (txRefund, ''refund''), (txAdd, ''add''),
     (txGas, ''gas''), (txBond, ''bond''), (txLeave, ''leave''),
     (txYggdrasilFund, ''yggdrasil+''), (txYggdrasilReturn, ''yggdrasil-''),
     (txReserve, ''reserve''), (txMigrate, ''migrate''), (txRagnarok, ''ragnarok'')]"

text \<open>
  \<open>strings.ToLower\<close> on the bytes of an ASCII string: the letters \<open>A\<close> to \<open>Z\<close> are
  mapped to \<open>a\<close> to \<open>z\<close>, every other byte is kept. (The library also lowers
  upper-case letters outside ASCII; memo actions are ASCII.)
\<close>

definition lower_char :: "char \<Rightarrow> char" where
  "lower_char c =
    (let n = of_char c :: nat in if 65 \<le> n \<and> n \<le> 90 then char_of (n + 32) else c)"

definition strings_ToLower :: "string \<Rightarrow> string" where
  "strings_ToLower s = map lower_char s"

text \<open>\<open>strings.Split(s, sep)\<close> for a one-byte separator: the fields between the
  separators, at least one.\<close>

fun strings_Split :: "string \<Rightarrow> char \<Rightarrow> string list" where
  "strings_Split [] sep = [[]]"
| "strings_Split (c # cs) sep =
    (if c = sep then [] # strings_Split cs sep
     else (case strings_Split cs sep of
             [] \<Rightarrow> [[c]]
           | p # ps \<Rightarrow> (c # p) # ps))"

definition stringToTxType :: "string \<Rightarrow> error + TxType" where
  "stringToTxType s =
    (let sl = strings_ToLower s in
     case map_of stringToTxTypeMap sl of
       Some t \<Rightarrow> Inr t
     | None \<Rightarrow> Inl (ErrInvalidTxType s))"

definition TxType_String :: "TxType \<Rightarrow> string" where
  "TxType_String tx = (case map_of txToStringMap tx of Some s \<Rightarrow> s | None \<Rightarrow> [])"

definition TxType_Equals :: "TxType \<Rightarrow> TxType \<Rightarrow> bool" where
  "TxType_Equals tx tx2 = (TxType_String tx = TxType_String tx2)"

record MemoBase =
  mb_TxType :: TxType
  mb_Asset :: Asset

text \<open>
  The Go value returned by \<open>ParseMemo\<close> is one of the structs that embed \<open>MemoBase\<close>;
  each constructor carries the embedded base first and then the struct's own fields.
\<close>

datatype Memo =
    BaseMemo MemoBase
  | GasMemo MemoBase
  | AddMemo MemoBase
  | StakeMemo MemoBase string string Address
  | UnstakeMemo MemoBase string
  | SwapMemo MemoBase Address nat
  | OutboundMemo MemoBase TxID
  | RefundMemo MemoBase TxID
  | BondMemo MemoBase AccAddress
  | LeaveMemo MemoBase
  | YggdrasilFundMemo MemoBase
  | YggdrasilReturnMemo MemoBase
  | ReserveMemo MemoBase
  | MigrateMemo MemoBase int
  | RagnarokMemo MemoBase int

definition zeroMemoBase :: MemoBase where
  "zeroMemoBase = \<lparr>mb_TxType = txUnknown, mb_Asset = EmptyAsset\<rparr>"

definition NewRagnarokMemo :: "int \<Rightarrow> Memo" where
  "NewRagnarokMemo blockHeight = RagnarokMemo zeroMemoBase blockHeight"

definition NewMigrateMemo :: "int \<Rightarrow> Memo" where
  "NewMigrateMemo blockHeight = MigrateMemo zeroMemoBase blockHeight"

definition NewOutboundMemo :: "TxID \<Rightarrow> Memo" where
  "NewOutboundMemo txID = OutboundMemo zeroMemoBase txID"

definition NewRefundMemo :: "TxID \<Rightarrow> Memo" where
  "NewRefundMemo txID = RefundMemo zeroMemoBase txID"

fun memo_base :: "Memo \<Rightarrow> MemoBase" where
  "memo_base (BaseMemo b) = b"
| "memo_base (GasMemo b) = b"
| "memo_base (AddMemo b) = b"
| "memo_base (StakeMemo b _ _ _) = b"
| "memo_base (UnstakeMemo b _) = b"
| "memo_base (SwapMemo b _ _) = b"
| "memo_base (OutboundMemo b _) = b"
| "memo_base (RefundMemo b _) = b"
| "memo_base (BondMemo b _) = b"
| "memo_base (LeaveMemo b) = b"
| "memo_base (YggdrasilFundMemo b) = b"
| "memo_base (YggdrasilReturnMemo b) = b"
| "memo_base (ReserveMemo b) = b"
| "memo_base (MigrateMemo b _) = b"
| "memo_base (RagnarokMemo b _) = b"

definition GetType :: "Memo \<Rightarrow> TxType" where
  "GetType m = mb_TxType (memo_base m)"

definition IsType :: "Memo \<Rightarrow> TxType \<Rightarrow> bool" where
  "IsType m tx = TxType_Equals (mb_TxType (memo_base m)) tx"

definition GetAsset :: "Memo \<Rightarrow> Asset" where
  "GetAsset m = mb_Asset (memo_base m)"

fun GetAmount :: "Memo \<Rightarrow> string" where
  "GetAmount (UnstakeMemo _ amt) = amt"
| "GetAmount _ = []"

fun GetDestination :: "Memo \<Rightarrow> Address" where
  "GetDestination (SwapMemo _ d _) = d"
| "GetDestination (StakeMemo _ _ _ a) = a"
| "GetDestination _ = []"

text \<open>
  The library functions \<open>ParseMemo\<close> calls (\<open>common.NewAsset\<close>, \<open>common.NewAddress\<close>,
  \<open>common.NewTxID\<close>, \<open>sdk.ParseUint\<close>, \<open>sdk.AccAddressFromBech32\<close>,
  \<open>strconv.ParseInt\<close>, \<open>Chain.IsBNB\<close>) are parameters of the model.
\<close>

record memo_env =
  NewAsset :: "string \<Rightarrow> error + Asset"
  NewAddress :: "string \<Rightarrow> error + Address"
  NewTxID :: "string \<Rightarrow> error + TxID"
  ParseUint :: "string \<Rightarrow> error + nat"
  AccAddressFromBech32 :: "string \<Rightarrow> error + AccAddress"
  ParseInt :: "string \<Rightarrow> error + int"
  IsBNB :: "Chain \<Rightarrow> bool"

text \<open>Modelled from the spec: the constant \<open>MaxUnstakeBasisPoints\<close>, whose declaration
  is not among the sources; the constants table gives \<open>MaxUnstakeBasisPoints = 10000\<close>.\<close>

definition MaxUnstakeBasisPoints :: nat where
  "MaxUnstakeBasisPoints = 10000"

definition noAssetMemos :: "TxType list" where
  "noAssetMemos =
    [txGas, txOutbound, txBond, txLeave, txRefund,
     txYggdrasilFund, txYggdrasilReturn, txReserve,
     txMigrate, txRagnarok]"

text \<open>The \<open>switch tx\<close> of \<open>ParseMemo\<close>, on the fields and the asset parsed before it.\<close>

definition ParseMemo_switch :: "memo_env \<Rightarrow> TxType \<Rightarrow> string list \<Rightarrow> Asset \<Rightarrow> error + Memo" where
  "ParseMemo_switch env tx parts asset =
    (case tx of
       txGas \<Rightarrow> Inr (GasMemo \<lparr>mb_TxType = txGas, mb_Asset = EmptyAsset\<rparr>)
     | txLeave \<Rightarrow> Inr (LeaveMemo \<lparr>mb_TxType = txLeave, mb_Asset = EmptyAsset\<rparr>)
     | txAdd \<Rightarrow> Inr (AddMemo \<lparr>mb_TxType = txAdd, mb_Asset = asset\<rparr>)
     | txStake \<Rightarrow>
         (if \<not> IsBNB env (asset_Chain asset) then
            (if length parts < 3 then Inl ErrStakeNoAddress
             else (case NewAddress env (parts ! 2) of
                     Inl e \<Rightarrow> Inl e
                   | Inr addr \<Rightarrow>
                       Inr (StakeMemo \<lparr>mb_TxType = txStake, mb_Asset = asset\<rparr> [] [] addr)))
          else Inr (StakeMemo \<lparr>mb_TxType = txStake, mb_Asset = asset\<rparr> [] [] NoAddress))
     | txUnstake \<Rightarrow>
         (if length parts < 2 then Inl ErrInvalidUnstakeMemo
          else if length parts > 2 then
            (let withdrawAmount = parts ! 2 in
             case ParseUint env withdrawAmount of
               Inl e \<Rightarrow> Inl e
             | Inr wa \<Rightarrow>
                 (if \<not> (wa > 0) \<or> wa > MaxUnstakeBasisPoints
                  then Inl (ErrWithdrawAmountInvalid withdrawAmount)
                  else Inr (UnstakeMemo \<lparr>mb_TxType = txUnstake, mb_Asset = asset\<rparr>
                              withdrawAmount)))
          else Inr (UnstakeMemo \<lparr>mb_TxType = txUnstake, mb_Asset = asset\<rparr> []))
     | txSwap \<Rightarrow>
         (if length parts < 2 then Inl ErrMissingSwapParameters
          else
            (case (if length parts > 2 \<and> length (parts ! 2) > 0
                   then NewAddress env (parts ! 2) else Inr NoAddress) of
               Inl e \<Rightarrow> Inl e
             | Inr destination \<Rightarrow>
                 (if length parts > 3 \<and> length (parts ! 3) > 0 then
                    (case ParseUint env (parts ! 3) of
                       Inl e \<Rightarrow> Inl (ErrSwapPriceLimitInvalid (parts ! 3))
                     | Inr amount \<Rightarrow>
                         Inr (SwapMemo \<lparr>mb_TxType = txSwap, mb_Asset = asset\<rparr>
                                destination amount))
                  else Inr (SwapMemo \<lparr>mb_TxType = txSwap, mb_Asset = asset\<rparr>
                              destination 0))))
     | txOutbound \<Rightarrow>
         (if length parts < 2 then Inl ErrNotEnoughParameters
          else (case NewTxID env (parts ! 1) of
                  Inl e \<Rightarrow> Inl e
                | Inr txID \<Rightarrow> Inr (NewOutboundMemo txID)))
     | txRefund \<Rightarrow>
         (if length parts < 2 then Inl ErrNotEnoughParameters
          else (case NewTxID env (parts ! 1) of
                  Inl e \<Rightarrow> Inl e
                | Inr txID \<Rightarrow> Inr (NewRefundMemo txID)))
     | txBond \<Rightarrow>
         (if length parts < 2 then Inl ErrNotEnoughParameters
          else (case AccAddressFromBech32 env (parts ! 1) of
                  Inl e \<Rightarrow> Inl (ErrInvalidThorchainAddress (parts ! 1) e)
                | Inr addr \<Rightarrow>
                    Inr (BondMemo \<lparr>mb_TxType = txBond, mb_Asset = EmptyAsset\<rparr> addr)))
     | txYggdrasilFund \<Rightarrow>
         Inr (YggdrasilFundMemo \<lparr>mb_TxType = txYggdrasilFund, mb_Asset = EmptyAsset\<rparr>)
     | txYggdrasilReturn \<Rightarrow>
         Inr (YggdrasilReturnMemo \<lparr>mb_TxType = txYggdrasilReturn, mb_Asset = EmptyAsset\<rparr>)
     | txReserve \<Rightarrow>
         Inr (ReserveMemo \<lparr>mb_TxType = txYggdrasilReturn, mb_Asset = EmptyAsset\<rparr>)
     | txMigrate \<Rightarrow>
         (if length parts < 2 then Inl ErrNotEnoughParameters
          else (case ParseInt env (parts ! 1) of
                  Inl e \<Rightarrow> Inl (ErrInvalidBlockHeight (parts ! 1) e)
                | Inr blockHeight \<Rightarrow>
                    Inr (MigrateMemo \<lparr>mb_TxType = txMigrate, mb_Asset = EmptyAsset\<rparr>
                           blockHeight)))
     | txRagnarok \<Rightarrow>
         (if length parts < 2 then Inl ErrNotEnoughParameters
          else (case ParseInt env (parts ! 1) of
                  Inl e \<Rightarrow> Inl (ErrInvalidBlockHeight (parts ! 1) e)
                | Inr blockHeight \<Rightarrow>
                    Inr (RagnarokMemo \<lparr>mb_TxType = txRagnarok, mb_Asset = EmptyAsset\<rparr>
                           blockHeight)))
     | txUnknown \<Rightarrow> Inl (ErrTxTypeNotSupported (TxType_String tx)))"

text \<open>
  \<open>ParseMemo\<close>. Go returns a pair of a memo and an error; on every error path of the
  source the memo is the empty \<open>MemoBase\<close> (or, for an outbound or refund memo whose
  transaction id the library rejects, a memo the callers discard), so the model returns
  the error alone.
\<close>

definition ParseMemo :: "memo_env \<Rightarrow> string \<Rightarrow> error + Memo" where
  "ParseMemo env memo =
    (if length memo = 0 then Inl ErrMemoEmpty
     else
       (let parts = strings_Split memo (CHR '':'') in
        case stringToTxType (parts ! 0) of
          Inl e \<Rightarrow> Inl e
        | Inr tx \<Rightarrow>
            (let hasAsset = (tx \<notin> set noAssetMemos) in
             if hasAsset then
               (if length parts < 2 then Inl (ErrCannotParseMemo (length parts))
                else (case NewAsset env (parts ! 1) of
                        Inl e \<Rightarrow> Inl e
                      | Inr asset \<Rightarrow> ParseMemo_switch env tx parts asset))
             else ParseMemo_switch env tx parts EmptyAsset)))"

section \<open>Keygen records in the key-value store\<close>

text \<open>
  A \<open>Keygens\<close> record: a height and the groups of public keys to run a key generation
  for. The store's methods take the height as \<open>uint64\<close>, the vault manager builds the
  record from the \<open>int64\<close> block height; the record is polymorphic in the height so that
  each is modelled with its own type.
\<close>

record 'h Keygens =
  kg_Height :: 'h
  kg_Keygens :: "PubKey list list"

text \<open>Modelled from the spec: the constructor \<open>NewKeygens\<close>, which is not among the
  sources. A record \<open>Keygens{height, groups}\<close> is built from a height, with no group
  yet.\<close>

definition NewKeygens :: "'h \<Rightarrow> 'h Keygens" where
  "NewKeygens height = \<lparr>kg_Height = height, kg_Keygens = []\<rparr>"

text \<open>\<open>strconv.FormatUint(n, 10)\<close>: the decimal digits of \<open>n\<close>.\<close>

definition digit_char :: "nat \<Rightarrow> char" where
  "digit_char d = char_of (48 + d)"

fun FormatUint :: "nat \<Rightarrow> string" where
  "FormatUint n =
    (if n < 10 then [digit_char n] else FormatUint (n div 10) @ [digit_char (n mod 10)])"

declare FormatUint.simps [simp del]

text \<open>
  The store of a \<open>KVStore\<close> is a finite map from keys to encoded values. The codec
  (\<open>k.cdc\<close>), the key builder \<open>k.GetKey\<close> and the prefix constant are not among the
  sources and are parameters.
\<close>

type_synonym Store = "string \<rightharpoonup> string"

record kv_env =
  GetKey :: "string \<Rightarrow> string \<Rightarrow> string"
  prefixKeygen :: string
  MarshalBinaryBare :: "nat Keygens \<Rightarrow> error + string"
  UnmarshalBinaryBare :: "string \<Rightarrow> error + nat Keygens"

definition dbError :: "string \<Rightarrow> error \<Rightarrow> error" where
  "dbError wrapper err = ErrDb wrapper err"

definition SetKeygens :: "kv_env \<Rightarrow> Store \<Rightarrow> nat Keygens \<Rightarrow> error + Store" where
  "SetKeygens k store keygens =
    (let key = GetKey k (prefixKeygen k) (FormatUint (kg_Height keygens)) in
     case MarshalBinaryBare k keygens of
       Inl err \<Rightarrow> Inl (dbError ''fail to marshal keygens'' err)
     | Inr buf \<Rightarrow> Inr (store(key \<mapsto> buf)))"

definition GetKeygens :: "kv_env \<Rightarrow> Store \<Rightarrow> nat \<Rightarrow> error + nat Keygens" where
  "GetKeygens k store height =
    (let key = GetKey k (prefixKeygen k) (FormatUint height) in
     case store key of
       None \<Rightarrow> Inr (NewKeygens height)
     | Some buf \<Rightarrow>
         (case UnmarshalBinaryBare k buf of
            Inl err \<Rightarrow> Inl (dbError ''fail to unmarshal keygens'' err)
          | Inr keygens \<Rightarrow> Inr keygens))"

section \<open>Vault manager\<close>

datatype VaultStatus = ActiveVault | RetiringVault | InactiveVault

datatype VaultType = UnknownVault | AsgardVault | YggdrasilVault

datatype NodeStatus = NodeWhiteListed | NodeStandby | NodeReady | NodeActive | NodeDisabled

record Vault =
  vault_BlockHeight :: int
  vault_PubKey :: PubKey
  vault_Coins :: "Coin list"
  vault_Type :: VaultType
  vault_Status :: VaultStatus
  vault_StatusSince :: int
  vault_Membership :: "PubKey list"

record NodeAccount =
  na_NodeAddress :: AccAddress
  na_Status :: NodeStatus
  na_PubKey :: PubKey
  na_Bond :: nat

record TxOutItem =
  toi_Chain :: Chain
  toi_InHash :: TxID
  toi_ToAddress :: Address
  toi_VaultPubKey :: PubKey
  toi_Coin :: Coin
  toi_Memo :: string

text \<open>Modelled from the spec: the constructor \<open>NewVault\<close>, which is not among the
  sources (nor are the type \<open>Vault\<close> and its methods). A vault is built from a height,
  a status, a type and a public key; it holds no coin and has no member at first, and
  its status dates from the height it is built with.\<close>

definition NewVault :: "int \<Rightarrow> VaultStatus \<Rightarrow> VaultType \<Rightarrow> PubKey \<Rightarrow> Vault" where
  "NewVault height status vtype pk =
    \<lparr>vault_BlockHeight = height, vault_PubKey = pk, vault_Coins = [],
     vault_Type = vtype, vault_Status = status, vault_StatusSince = height,
     vault_Membership = []\<rparr>"

text \<open>Modelled from the spec: \<open>Asset.Equals\<close>, which is not among the sources. Equality
  of assets is structural and ignores case on the symbol.\<close>

definition Asset_Equals :: "Asset \<Rightarrow> Asset \<Rightarrow> bool" where
  "Asset_Equals a b =
    (asset_Chain a = asset_Chain b
     \<and> strings_ToLower (asset_Symbol a) = strings_ToLower (asset_Symbol b)
     \<and> asset_Ticker a = asset_Ticker b)"

text \<open>Modelled from the spec: \<open>Vault.GetCoin\<close>, which is not among the sources. The
  coins of a vault map an asset to an amount; an asset the vault does not hold has the
  amount zero.\<close>

definition GetCoin :: "Vault \<Rightarrow> Asset \<Rightarrow> Coin" where
  "GetCoin v asset =
    (case find (\<lambda>item. Asset_Equals (coin_Asset item) asset) (vault_Coins v) of
       Some item \<Rightarrow> item
     | None \<Rightarrow> \<lparr>coin_Asset = asset, coin_Amount = 0\<rparr>)"

text \<open>Modelled from the spec: \<open>Vault.HasFunds\<close>, which is not among the sources. A vault
  has funds when one of its coins has a nonzero amount.\<close>

definition HasFunds :: "Vault \<Rightarrow> bool" where
  "HasFunds v = list_ex (\<lambda>coin. coin_Amount coin \<noteq> 0) (vault_Coins v)"

text \<open>
  \<open>PubKey.GetAddress\<close>, \<open>Vaults.HasAddress\<close> and the constant \<open>common.BlankTxID\<close> are
  not among the sources and are parameters.
\<close>

record vault_env =
  GetAddress :: "PubKey \<Rightarrow> Chain \<Rightarrow> error + Address"
  HasAddress :: "Vault list \<Rightarrow> Chain \<Rightarrow> Address \<Rightarrow> error + bool"
  BlankTxID :: TxID

text \<open>
  The keeper is an interface; the model takes it as a record of functions over a state
  \<open>'s\<close>. A read returns an error or a value; a write returns an error or the new state.
  The outbound store is reached through a versioned factory, as in the source.
\<close>

record Tx =
  tx_ID :: TxID
  tx_Chain :: Chain
  tx_FromAddress :: Address
  tx_ToAddress :: Address
  tx_Coins :: "Coin list"
  tx_Memo :: string

datatype EventStatus = EventPending | EventSuccess | EventRefund

record Fee =
  fee_Coins :: "Coin list"
  fee_PoolDeduct :: nat

record Event =
  ev_ID :: int
  ev_Height :: int
  ev_Type :: string
  ev_InTx :: Tx
  ev_OutTxs :: "Tx list"
  ev_Fee :: Fee
  ev_Event :: string
  ev_Status :: EventStatus

definition NewEvent :: "string \<Rightarrow> int \<Rightarrow> Tx \<Rightarrow> string \<Rightarrow> EventStatus \<Rightarrow> Event" where
  "NewEvent typ ht inTx evt status =
    \<lparr>ev_ID = 0, ev_Height = ht, ev_Type = typ, ev_InTx = inTx, ev_OutTxs = [],
     ev_Fee = \<lparr>fee_Coins = [], fee_PoolDeduct = 0\<rparr>,
     ev_Event = evt, ev_Status = status\<rparr>"

record 's Keeper =
  GetAsgardVaults :: "'s \<Rightarrow> error + Vault list"
  GetAsgardVaultsByStatus :: "'s \<Rightarrow> VaultStatus \<Rightarrow> error + Vault list"
  ListActiveNodeAccounts :: "'s \<Rightarrow> error + NodeAccount list"
  GetNodeAccountByPubKey :: "'s \<Rightarrow> PubKey \<Rightarrow> error + NodeAccount"
  SetVault :: "'s \<Rightarrow> Vault \<Rightarrow> error + 's"
  DeleteVault :: "'s \<Rightarrow> PubKey \<Rightarrow> error + 's"
  Keeper_SetKeygens :: "'s \<Rightarrow> int Keygens \<Rightarrow> error + 's"
  UpsertEvent :: "'s \<Rightarrow> Event \<Rightarrow> error + 's"

record 's TxOutStore =
  TryAddTxOutItem :: "'s \<Rightarrow> TxOutItem \<Rightarrow> error + (bool \<times> 's)"

type_synonym Version = "nat \<times> nat \<times> nat"

type_synonym 's VersionedTxOutStore = "'s Keeper \<Rightarrow> Version \<Rightarrow> error + 's TxOutStore"

record 's VaultMgr =
  vm_k :: "'s Keeper"
  vm_versionedTxOutStore :: "'s VersionedTxOutStore"

datatype ConstantName = FundMigrationInterval | SigningTransactionPeriod

type_synonym ConstantValues = "ConstantName \<Rightarrow> int"

text \<open>Modelled from the spec: the constant \<open>genesisBlockHeight\<close>, whose declaration is
  not among the sources; genesis is the block of height 1.\<close>

definition genesisBlockHeight :: int where
  "genesisBlockHeight = 1"

text \<open>
  A method of the vault manager takes the block height of the context and the state,
  and returns the Go \<open>error\<close> (\<open>None\<close> for \<open>nil\<close>) with the state it leaves behind.
\<close>

definition TriggerKeygen :: "'s VaultMgr \<Rightarrow> int \<Rightarrow> 's \<Rightarrow> NodeAccount list \<Rightarrow> error option \<times> 's" where
  "TriggerKeygen vm height s nas =
    (let keygen = map na_PubKey nas;
         keygens = (NewKeygens height)\<lparr>kg_Keygens := [keygen]\<rparr>
     in case Keeper_SetKeygens (vm_k vm) s keygens of
          Inl err \<Rightarrow> (Some err, s)
        | Inr s' \<Rightarrow> (None, s'))"

definition processGenesisSetup :: "'s VaultMgr \<Rightarrow> int \<Rightarrow> 's \<Rightarrow> error option \<times> 's" where
  "processGenesisSetup vm height s =
    (if height \<noteq> genesisBlockHeight then (None, s)
     else
       (case GetAsgardVaults (vm_k vm) s of
          Inl err \<Rightarrow> (Some (ErrFailGetVaults err), s)
        | Inr vaults \<Rightarrow>
            (if length vaults > 0 then (None, s)
             else
               (case ListActiveNodeAccounts (vm_k vm) s of
                  Inl err \<Rightarrow> (Some ErrFailGetActiveNodeAccounts, s)
                | Inr active \<Rightarrow>
                    (if length active = 0 then (Some ErrNoActiveAccounts, s)
                     else if length active = 1 then
                       (let vault = (NewVault 0 ActiveVault AsgardVault (na_PubKey (active ! 0)))
                                      \<lparr>vault_Membership := [na_PubKey (active ! 0)]\<rparr>
                        in case SetVault (vm_k vm) s vault of
                             Inl err \<Rightarrow> (Some (ErrFailSaveVault err), s)
                           | Inr s' \<Rightarrow> (None, s'))
                     else
                       (case TriggerKeygen vm height s active of
                          (Some err, s') \<Rightarrow> (Some (ErrFailTriggerKeygen err), s')
                        | (None, s') \<Rightarrow> (None, s')))))))"

text \<open>
  The two operations of \<open>sdk.Uint\<close> that \<open>EndBlock\<close> uses: \<open>MulUint64\<close> panics when
  the product does not fit 256 bits, \<open>QuoUint64\<close> panics on a zero divisor.
\<close>

definition MulUint64 :: "nat \<Rightarrow> nat \<Rightarrow> error + nat" where
  "MulUint64 u n = (if u * n < 2 ^ 256 then Inr (u * n) else Inl ErrUintOverflow)"

definition QuoUint64 :: "nat \<Rightarrow> nat \<Rightarrow> error + nat" where
  "QuoUint64 u n = (if n = 0 then Inl ErrDivideByZero else Inr (u div n))"

text \<open>\<open>uint64(n)\<close> of an \<open>int64\<close>: the value modulo \<open>2^64\<close>.\<close>

definition uint64 :: "int \<Rightarrow> nat" where
  "uint64 n = nat (n mod 2 ^ 64)"

text \<open>
  The receiver selection of \<open>EndBlock\<close>: the loop over the active asgard vaults that
  keeps the coin and the key of the vault holding the least of the asset, starting
  from the first vault.
\<close>

fun EndBlock_pick :: "Asset \<Rightarrow> Vault list \<Rightarrow> Coin \<times> PubKey \<Rightarrow> Coin \<times> PubKey" where
  "EndBlock_pick asset [] (cn, pk) = (cn, pk)"
| "EndBlock_pick asset (asgard # rest) (cn, pk) =
    (if coin_Amount cn > coin_Amount (GetCoin asgard asset)
     then EndBlock_pick asset rest (GetCoin asgard asset, vault_PubKey asgard)
     else EndBlock_pick asset rest (cn, pk))"

definition EndBlock_receiver :: "Vault list \<Rightarrow> Asset \<Rightarrow> Coin \<times> PubKey" where
  "EndBlock_receiver active asset =
    EndBlock_pick asset active (GetCoin (active ! 0) asset, vault_PubKey (active ! 0))"

text \<open>The round number and the amount of one migration, as the loop body computes them
  (\<open>/\<close> on \<open>int64\<close> truncates towards zero).\<close>

definition EndBlock_nth :: "int \<Rightarrow> int \<Rightarrow> int \<Rightarrow> int" where
  "EndBlock_nth height statusSince migrateInterval =
    (height - statusSince) sdiv migrateInterval + 1"

definition EndBlock_amt :: "int \<Rightarrow> nat \<Rightarrow> error + nat" where
  "EndBlock_amt n amt =
    (if n < 5 then
       (case MulUint64 amt (uint64 n) of
          Inl err \<Rightarrow> Inl err
        | Inr product \<Rightarrow> QuoUint64 product 5)
     else Inr amt)"

text \<open>The body of the loop over the coins of a retiring vault: the item it builds, and
  the call that enqueues it.\<close>

definition EndBlock_item ::
  "vault_env \<Rightarrow> int \<Rightarrow> int \<Rightarrow> Vault list \<Rightarrow> Vault \<Rightarrow> Coin \<Rightarrow> error + TxOutItem" where
  "EndBlock_item env height migrateInterval active vault coin =
    (case EndBlock_receiver active (coin_Asset coin) of
       (cn, pk) \<Rightarrow>
         (case GetAddress env pk (asset_Chain (coin_Asset coin)) of
            Inl err \<Rightarrow> Inl err
          | Inr addr \<Rightarrow>
              (let n = EndBlock_nth height (vault_StatusSince vault) migrateInterval
               in case EndBlock_amt n (coin_Amount coin) of
                    Inl err \<Rightarrow> Inl err
                  | Inr amt \<Rightarrow>
                      Inr \<lparr>toi_Chain = asset_Chain (coin_Asset coin),
                           toi_InHash = BlankTxID env,
                           toi_ToAddress = addr,
                           toi_VaultPubKey = vault_PubKey vault,
                           toi_Coin = \<lparr>coin_Asset = coin_Asset coin, coin_Amount = amt\<rparr>,
                           toi_Memo = ''migrate''\<rparr>)))"

fun EndBlock_coins ::
  "vault_env \<Rightarrow> 's TxOutStore \<Rightarrow> int \<Rightarrow> int \<Rightarrow> Vault list \<Rightarrow> Vault \<Rightarrow> Coin list \<Rightarrow> 's
    \<Rightarrow> error option \<times> 's" where
  "EndBlock_coins env txOutStore height migrateInterval active vault [] s = (None, s)"
| "EndBlock_coins env txOutStore height migrateInterval active vault (coin # coins) s =
    (case EndBlock_item env height migrateInterval active vault coin of
       Inl err \<Rightarrow> (Some err, s)
     | Inr toi \<Rightarrow>
         (case TryAddTxOutItem txOutStore s toi of
            Inl err \<Rightarrow> (Some err, s)
          | Inr (ok, s') \<Rightarrow>
              EndBlock_coins env txOutStore height migrateInterval active vault coins s'))"

text \<open>The loop over the retiring vaults. \<open>%\<close> on \<open>int64\<close> takes the sign of the
  dividend and panics on a zero divisor.\<close>

fun EndBlock_vaults ::
  "'s VaultMgr \<Rightarrow> vault_env \<Rightarrow> 's TxOutStore \<Rightarrow> int \<Rightarrow> int \<Rightarrow> Vault list \<Rightarrow> Vault list \<Rightarrow> 's
    \<Rightarrow> error option \<times> 's" where
  "EndBlock_vaults vm env txOutStore height migrateInterval active [] s = (None, s)"
| "EndBlock_vaults vm env txOutStore height migrateInterval active (vault # retiring) s =
    (if \<not> HasFunds vault then
       (case DeleteVault (vm_k vm) s (vault_PubKey vault) of
          Inl err \<Rightarrow> (Some err, s)
        | Inr s' \<Rightarrow> EndBlock_vaults vm env txOutStore height migrateInterval active retiring s')
     else if migrateInterval = 0 then (Some ErrDivideByZero, s)
     else if (height - vault_StatusSince vault) smod migrateInterval = 0 then
       (case EndBlock_coins env txOutStore height migrateInterval active vault
               (vault_Coins vault) s of
          (Some err, s') \<Rightarrow> (Some err, s')
        | (None, s') \<Rightarrow>
            EndBlock_vaults vm env txOutStore height migrateInterval active retiring s')
     else EndBlock_vaults vm env txOutStore height migrateInterval active retiring s)"

definition EndBlock ::
  "'s VaultMgr \<Rightarrow> vault_env \<Rightarrow> int \<Rightarrow> Version \<Rightarrow> ConstantValues \<Rightarrow> 's \<Rightarrow> error option \<times> 's" where
  "EndBlock vm env height version constAccessor s =
    (if height = genesisBlockHeight then processGenesisSetup vm height s
     else
       (let migrateInterval = constAccessor FundMigrationInterval in
        case GetAsgardVaultsByStatus (vm_k vm) s RetiringVault of
          Inl err \<Rightarrow> (Some err, s)
        | Inr retiring \<Rightarrow>
            (case GetAsgardVaultsByStatus (vm_k vm) s ActiveVault of
               Inl err \<Rightarrow> (Some err, s)
             | Inr active \<Rightarrow>
                 (if length active = 0 then (None, s)
                  else
                    (case vm_versionedTxOutStore vm (vm_k vm) version of
                       Inl err \<Rightarrow> (Some ErrBadVersion, s)
                     | Inr txOutStore \<Rightarrow>
                         EndBlock_vaults vm env txOutStore height migrateInterval
                           active retiring s)))))"

section \<open>Yggdrasil handler\<close>

record MsgYggdrasil =
  msg_PubKey :: PubKey
  msg_AddFunds :: bool
  msg_Coins :: "Coin list"
  msg_Tx :: Tx

text \<open>The \<open>sdk.Result\<close> of a handler: its code, with the message of an internal error
  (a literal of the source, or the text of the error it wraps).\<close>

datatype sdk_Result =
    CodeOK
  | ErrInternal string
  | ErrInternalOf error
  | BadVersionResult

datatype YggdrasilType = YggdrasilFund | YggdrasilReturn

record EventYggdrasil =
  ey_PubKey :: PubKey
  ey_Coins :: "Coin list"
  ey_Type :: YggdrasilType

text \<open>Modelled from the spec: the constructor \<open>NewEventYggdrasil\<close>, which is not among
  the sources; the event records the key, the coins and the direction it is given.\<close>

definition NewEventYggdrasil :: "PubKey \<Rightarrow> Coin list \<Rightarrow> YggdrasilType \<Rightarrow> EventYggdrasil" where
  "NewEventYggdrasil pk coins t = \<lparr>ey_PubKey = pk, ey_Coins = coins, ey_Type = t\<rparr>"

type_synonym sdk_Event = "string \<times> (string \<times> string) list"

text \<open>
  \<open>slashNodeAccount\<close> and \<open>refundBond\<close> are not among the sources, nor are the event's
  type name, the JSON encoder, the printing of coins and the event manager of the
  context: they are parameters. A step that changes state returns an error or the new
  state.
\<close>

record 's ygg_env =
  slashNodeAccount :: "'s Keeper \<Rightarrow> 's \<Rightarrow> PubKey \<Rightarrow> Asset \<Rightarrow> nat \<Rightarrow> error + 's"
  refundBond :: "'s \<Rightarrow> Tx \<Rightarrow> NodeAccount \<Rightarrow> 's Keeper \<Rightarrow> 's TxOutStore \<Rightarrow> error + 's"
  json_Marshal :: "EventYggdrasil \<Rightarrow> error + string"
  EventYggdrasil_Type :: string
  Coins_String :: "Coin list \<Rightarrow> string"
  EmitEvent :: "'s \<Rightarrow> sdk_Event \<Rightarrow> 's"

record 's YggdrasilHandler =
  h_keeper :: "'s Keeper"
  h_txOutStore :: "'s VersionedTxOutStore"

text \<open>The loop that slashes the node account once for each coin of the transaction; it
  stops at the first failure.\<close>

fun handleYggdrasilReturn_slash ::
  "'s ygg_env \<Rightarrow> 's Keeper \<Rightarrow> PubKey \<Rightarrow> Coin list \<Rightarrow> 's \<Rightarrow> error option \<times> 's" where
  "handleYggdrasilReturn_slash env k pk [] s = (None, s)"
| "handleYggdrasilReturn_slash env k pk (c # cs) s =
    (case slashNodeAccount env k s pk (coin_Asset c) (coin_Amount c) of
       Inl err \<Rightarrow> (Some err, s)
     | Inr s' \<Rightarrow> handleYggdrasilReturn_slash env k pk cs s')"

text \<open>The rest of the yggdrasil branch, after the slashing: the node account is read
  and, unless the node is active, its bond is refunded.\<close>

definition handleYggdrasilReturn_bond ::
  "'s YggdrasilHandler \<Rightarrow> 's ygg_env \<Rightarrow> MsgYggdrasil \<Rightarrow> Version \<Rightarrow> 's \<Rightarrow> sdk_Result \<times> 's" where
  "handleYggdrasilReturn_bond h env msg version s =
    (case GetNodeAccountByPubKey (h_keeper h) s (msg_PubKey msg) of
       Inl err \<Rightarrow> (ErrInternalOf err, s)
     | Inr na \<Rightarrow>
         (if na_Status na = NodeActive then (CodeOK, s)
          else
            (case h_txOutStore h (h_keeper h) version of
               Inl err \<Rightarrow> (BadVersionResult, s)
             | Inr txOutStore \<Rightarrow>
                 (case refundBond env s (msg_Tx msg) na (h_keeper h) txOutStore of
                    Inl err \<Rightarrow> (ErrInternalOf err, s)
                  | Inr s' \<Rightarrow> (CodeOK, s')))))"

definition handleYggdrasilReturn ::
  "'s YggdrasilHandler \<Rightarrow> 's ygg_env \<Rightarrow> vault_env \<Rightarrow> int \<Rightarrow> MsgYggdrasil \<Rightarrow> Vault \<Rightarrow> Version \<Rightarrow> 's
    \<Rightarrow> sdk_Result \<times> 's" where
  "handleYggdrasilReturn h env venv height msg vault version s =
    (if vault_Type vault = YggdrasilVault then
       (case GetAsgardVaultsByStatus (h_keeper h) s ActiveVault of
          Inl err \<Rightarrow> (ErrInternal ''unable to get asgard vaults'', s)
        | Inr asgardVaults \<Rightarrow>
            (case HasAddress venv asgardVaults (tx_Chain (msg_Tx msg))
                    (tx_ToAddress (msg_Tx msg)) of
               Inl err \<Rightarrow> (ErrInternal ''unable to check recipient against active Asgards'', s)
             | Inr isAsgardReceipient \<Rightarrow>
                 (case (if \<not> isAsgardReceipient
                        then handleYggdrasilReturn_slash env (h_keeper h) (msg_PubKey msg)
                               (tx_Coins (msg_Tx msg)) s
                        else (None, s)) of
                    (Some err, s') \<Rightarrow> (ErrInternal ''fail to slash account'', s')
                  | (None, s') \<Rightarrow> handleYggdrasilReturn_bond h env msg version s')))
     else if vault_Type vault = AsgardVault then
       (let yggFundEvent = NewEventYggdrasil (msg_PubKey msg) (msg_Coins msg) YggdrasilReturn in
        case json_Marshal env yggFundEvent of
          Inl err \<Rightarrow> (ErrInternal ''fail to marshal yggdrasil fund event to json'', s)
        | Inr yggBuf \<Rightarrow>
            (let e = NewEvent (EventYggdrasil_Type env) height (msg_Tx msg) yggBuf EventSuccess in
             case UpsertEvent (h_keeper h) s e of
               Inl err \<Rightarrow> (ErrInternal ''fail to save events'', s)
             | Inr s' \<Rightarrow>
                 (CodeOK,
                  EmitEvent env s'
                    (''yggdrasil_return'',
                     [(''pubkey'', vault_PubKey vault),
                      (''coins'', Coins_String env (msg_Coins msg)),
                      (''tx'', tx_ID (msg_Tx msg))]))))
     else (CodeOK, s))"

section \<open>Pool-unit issuance\<close>

text \<open>
  Modelled from the spec: \<open>calculatePoolUnits\<close>. The function is not among the sources;
  only its test table is. The cases are those of the section on pool-unit issuance:
  with \<open>r\<close> RUNE and \<open>a\<close> asset added to a pool \<open>{R, A, U}\<close>, the units added are
  \<open>U \<cdot> (r\<cdot>A + a\<cdot>R) / (2\<cdot>R\<cdot>A + r\<cdot>A + a\<cdot>R)\<close> if \<open>U > 0\<close>, \<open>max(r, a)\<close> if \<open>U = 0\<close>,
  \<open>R > 0\<close> and \<open>A > 0\<close>, and \<open>(r + a) / 2\<close> for the first stake into an empty pool,
  which fails when the RUNE side or the asset side is zero. The result is, as the test
  table of the repository reads it, the new number of pool units, the units added and
  the error, the two numbers being zero with an error; the messages of the two
  failures are the ones that table expects. The spec gives no rule for a pool without
  units that holds only one of the two balances.
\<close>

definition calculatePoolUnits :: "nat \<Rightarrow> nat \<Rightarrow> nat \<Rightarrow> nat \<Rightarrow> nat \<Rightarrow> nat \<times> nat \<times> error option" where
  "calculatePoolUnits oldPoolUnits poolRune poolAsset stakeRune stakeAsset =
    (if oldPoolUnits > 0 then
       (let stakeUnits =
              (oldPoolUnits * (stakeRune * poolAsset + stakeAsset * poolRune))
                div (2 * poolRune * poolAsset + stakeRune * poolAsset + stakeAsset * poolRune)
        in (oldPoolUnits + stakeUnits, stakeUnits, None))
     else if poolRune > 0 \<and> poolAsset > 0 then
       (let stakeUnits = max stakeRune stakeAsset
        in (oldPoolUnits + stakeUnits, stakeUnits, None))
     else if poolRune = 0 \<and> poolAsset = 0 then
       (if stakeRune = 0 then (0, 0, Some ErrTotalRuneZero)
        else if stakeAsset = 0 then (0, 0, Some ErrTotalAssetZero)
        else
          (let stakeUnits = (stakeRune + stakeAsset) div 2
           in (oldPoolUnits + stakeUnits, stakeUnits, None)))
     else (0, 0, Some ErrNoIssuanceRule))"

text \<open>The text of an error, for the errors whose message is a literal of the sources
  (the other messages are formatted, or are not among the sources).\<close>

definition error_message :: "error \<Rightarrow> string option" where
  "error_message err =
    (case err of
       ErrTotalRuneZero \<Rightarrow> Some ''total RUNE in the pool is zero''
     | ErrTotalAssetZero \<Rightarrow> Some ''total asset in the pool is zero''
     | ErrMemoEmpty \<Rightarrow> Some ''memo can't be empty''
     | ErrStakeNoAddress \<Rightarrow>
         Some ''invalid stake. Cannot stake to a non BNB-based pool without providing an associated address''
     | ErrInvalidUnstakeMemo \<Rightarrow> Some ''invalid unstake memo''
     | ErrNotEnoughParameters \<Rightarrow> Some ''not enough parameters''
     | ErrNoActiveAccounts \<Rightarrow> Some ''no active accounts,cannot proceed''
     | ErrFailGetActiveNodeAccounts \<Rightarrow> Some ''fail to get all active node accounts''
     | _ \<Rightarrow> None)"

text \<open>Modelled from the spec: the constant \<open>common.One\<close>, whose declaration is not among
  the sources; the base unit is \<open>ONE = 100_000_000\<close> per whole unit.\<close>

definition One :: nat where
  "One = 100000000"

section \<open>Instances for evaluation\<close>

text \<open>
  Concrete instances of the parameters, on which the model is evaluated: a reader of
  decimal numbers and of assets written \<open>CHAIN.SYMBOL\<close>, and an in-memory keeper
  with an outbound store that appends to a queue.
\<close>

definition digit_val :: "char \<Rightarrow> nat option" where
  "digit_val c =
    (let n = of_char c :: nat in if 48 \<le> n \<and> n \<le> 57 then Some (n - 48) else None)"

fun parse_digits :: "nat \<Rightarrow> string \<Rightarrow> nat option" where
  "parse_digits acc [] = Some acc"
| "parse_digits acc (c # cs) =
    (case digit_val c of None \<Rightarrow> None | Some d \<Rightarrow> parse_digits (10 * acc + d) cs)"

definition mem_ParseUint :: "string \<Rightarrow> error + nat" where
  "mem_ParseUint s =
    (if s = [] then Inl (ErrExternal ''empty number'')
     else (case parse_digits 0 s of
             None \<Rightarrow> Inl (ErrExternal ''not a number'')
           | Some n \<Rightarrow> Inr n))"

definition mem_NewAsset :: "string \<Rightarrow> error + Asset" where
  "mem_NewAsset s =
    (case strings_Split s (CHR ''.'') of
       [ch, sy] \<Rightarrow> Inr \<lparr>asset_Chain = ch, asset_Symbol = sy, asset_Ticker = sy\<rparr>
     | _ \<Rightarrow> Inl (ErrExternal ''bad asset''))"

definition mem_memo_env :: memo_env where
  "mem_memo_env =
    \<lparr>NewAsset = mem_NewAsset,
     NewAddress = (\<lambda>s. if s = [] then Inl (ErrExternal ''bad address'') else Inr s),
     NewTxID = (\<lambda>s. if s = [] then Inl (ErrExternal ''bad tx id'') else Inr s),
     ParseUint = mem_ParseUint,
     AccAddressFromBech32 = (\<lambda>s. if s = [] then Inl (ErrExternal ''bad bech32'') else Inr s),
     ParseInt = (\<lambda>s. map_sum id int (mem_ParseUint s)),
     IsBNB = (\<lambda>c. c = ''BNB'')\<rparr>"

definition mem_kv_env :: kv_env where
  "mem_kv_env =
    \<lparr>GetKey = (\<lambda>prefix key. prefix @ ''/'' @ key),
     prefixKeygen = ''keygen'',
     MarshalBinaryBare = (\<lambda>kg. Inr (FormatUint (kg_Height kg))),
     UnmarshalBinaryBare =
       (\<lambda>buf. case mem_ParseUint buf of
                 Inl e \<Rightarrow> Inl e
               | Inr h \<Rightarrow> Inr \<lparr>kg_Height = h, kg_Keygens = []\<rparr>)\<rparr>"

record mem_state =
  st_vaults :: "Vault list"
  st_nodes :: "NodeAccount list"
  st_keygens :: "int Keygens list"
  st_txout :: "TxOutItem list"
  st_events :: "Event list"
  st_emitted :: "sdk_Event list"

definition mem_keeper :: "mem_state Keeper" where
  "mem_keeper =
    \<lparr>GetAsgardVaults = (\<lambda>s. Inr (filter (\<lambda>v. vault_Type v = AsgardVault) (st_vaults s))),
     GetAsgardVaultsByStatus =
       (\<lambda>s st. Inr (filter (\<lambda>v. vault_Type v = AsgardVault \<and> vault_Status v = st)
                      (st_vaults s))),
     ListActiveNodeAccounts =
       (\<lambda>s. Inr (filter (\<lambda>n. na_Status n = NodeActive) (st_nodes s))),
     GetNodeAccountByPubKey =
       (\<lambda>s pk. case find (\<lambda>n. na_PubKey n = pk) (st_nodes s) of
                  Some n \<Rightarrow> Inr n
                | None \<Rightarrow> Inl (ErrExternal ''node account not found'')),
     SetVault =
       (\<lambda>s v. Inr (s\<lparr>st_vaults :=
                        filter (\<lambda>u. vault_PubKey u \<noteq> vault_PubKey v) (st_vaults s) @ [v]\<rparr>)),
     DeleteVault =
       (\<lambda>s pk. Inr (s\<lparr>st_vaults := filter (\<lambda>u. vault_PubKey u \<noteq> pk) (st_vaults s)\<rparr>)),
     Keeper_SetKeygens =
       (\<lambda>s kg. Inr (s\<lparr>st_keygens :=
                         filter (\<lambda>g. kg_Height g \<noteq> kg_Height kg) (st_keygens s) @ [kg]\<rparr>)),
     UpsertEvent = (\<lambda>s e. Inr (s\<lparr>st_events := st_events s @ [e]\<rparr>))\<rparr>"

definition mem_txOutStore :: "mem_state TxOutStore" where
  "mem_txOutStore =
    \<lparr>TryAddTxOutItem = (\<lambda>s toi. Inr (True, s\<lparr>st_txout := st_txout s @ [toi]\<rparr>))\<rparr>"

definition mem_versionedTxOutStore :: "mem_state VersionedTxOutStore" where
  "mem_versionedTxOutStore k version = Inr mem_txOutStore"

definition mem_vm :: "mem_state VaultMgr" where
  "mem_vm = \<lparr>vm_k = mem_keeper, vm_versionedTxOutStore = mem_versionedTxOutStore\<rparr>"

definition mem_address :: "PubKey \<Rightarrow> Chain \<Rightarrow> Address" where
  "mem_address pk chain = chain @ '':'' @ pk"

definition mem_vault_env :: vault_env where
  "mem_vault_env =
    \<lparr>GetAddress = (\<lambda>pk chain. Inr (mem_address pk chain)),
     HasAddress =
       (\<lambda>vs chain addr. Inr (list_ex (\<lambda>v. mem_address (vault_PubKey v) chain = addr) vs)),
     BlankTxID = replicate 64 (CHR ''0'')\<rparr>"

definition RuneAsset :: Asset where
  "RuneAsset = \<lparr>asset_Chain = ''BNB'', asset_Symbol = ''RUNE-A1F'', asset_Ticker = ''RUNE''\<rparr>"

text \<open>In the instance a slash takes the amount from the bond of the node that owns the
  key, as at a pool price of one, and a refund queues the bond for the node's address
  and sets it to zero.\<close>

definition mem_ygg_env :: "mem_state ygg_env" where
  "mem_ygg_env =
    \<lparr>slashNodeAccount =
       (\<lambda>k s pk asset amt.
          Inr (s\<lparr>st_nodes :=
                   map (\<lambda>n. if na_PubKey n = pk then n\<lparr>na_Bond := na_Bond n - amt\<rparr> else n)
                     (st_nodes s)\<rparr>)),
     refundBond =
       (\<lambda>s tx na k store.
          Inr (s\<lparr>st_nodes :=
                   map (\<lambda>n. if na_PubKey n = na_PubKey na then n\<lparr>na_Bond := 0\<rparr> else n)
                     (st_nodes s),
                 st_txout :=
                   st_txout s @
                     [\<lparr>toi_Chain = ''BNB'', toi_InHash = tx_ID tx,
                       toi_ToAddress = na_NodeAddress na, toi_VaultPubKey = [],
                       toi_Coin = \<lparr>coin_Asset = RuneAsset, coin_Amount = na_Bond na\<rparr>,
                       toi_Memo = []\<rparr>]\<rparr>)),
     json_Marshal = (\<lambda>e. Inr (ey_PubKey e)),
     EventYggdrasil_Type = ''yggdrasil'',
     Coins_String = (\<lambda>cs. FormatUint (length cs)),
     EmitEvent = (\<lambda>s e. s\<lparr>st_emitted := st_emitted s @ [e]\<rparr>)\<rparr>"

definition mem_handler :: "mem_state YggdrasilHandler" where
  "mem_handler = \<lparr>h_keeper = mem_keeper, h_txOutStore = mem_versionedTxOutStore\<rparr>"

definition BTCAsset :: Asset where
  "BTCAsset = \<lparr>asset_Chain = ''BTC'', asset_Symbol = ''BTC'', asset_Ticker = ''BTC''\<rparr>"

definition BNBAsset :: Asset where
  "BNBAsset = \<lparr>asset_Chain = ''BNB'', asset_Symbol = ''BNB'', asset_Ticker = ''BNB''\<rparr>"

definition mem_constants :: ConstantValues where
  "mem_constants c = 100"

definition mem_empty :: mem_state where
  "mem_empty =
    \<lparr>st_vaults = [], st_nodes = [], st_keygens = [], st_txout = [], st_events = [],
     st_emitted = []\<rparr>"

definition mem_node :: "PubKey \<Rightarrow> NodeStatus \<Rightarrow> nat \<Rightarrow> NodeAccount" where
  "mem_node pk status bond =
    \<lparr>na_NodeAddress = pk, na_Status = status, na_PubKey = pk, na_Bond = bond\<rparr>"

definition mem_vault :: "PubKey \<Rightarrow> VaultType \<Rightarrow> VaultStatus \<Rightarrow> int \<Rightarrow> Coin list \<Rightarrow> Vault" where
  "mem_vault pk vtype status since coins =
    (NewVault since status vtype pk)\<lparr>vault_Coins := coins\<rparr>"

text \<open>A state with a retiring asgard vault that holds 1000 BTC since block 50 and two
  active asgard vaults that hold 5 BTC and 3 BTC.\<close>

definition mem_retiring :: Vault where
  "mem_retiring =
    mem_vault ''old'' AsgardVault RetiringVault 50
      [\<lparr>coin_Asset = BTCAsset, coin_Amount = 1000 * One\<rparr>]"

definition mem_active1 :: Vault where
  "mem_active1 =
    mem_vault ''new1'' AsgardVault ActiveVault 50
      [\<lparr>coin_Asset = BTCAsset, coin_Amount = 5 * One\<rparr>]"

definition mem_active2 :: Vault where
  "mem_active2 =
    mem_vault ''new2'' AsgardVault ActiveVault 50
      [\<lparr>coin_Asset = BTCAsset, coin_Amount = 3 * One\<rparr>]"

definition mem_migration :: mem_state where
  "mem_migration = mem_empty\<lparr>st_vaults := [mem_retiring, mem_active1, mem_active2]\<rparr>"

definition mem_item :: "Address \<Rightarrow> nat \<Rightarrow> TxOutItem" where
  "mem_item addr amt =
    \<lparr>toi_Chain = ''BTC'', toi_InHash = replicate 64 (CHR ''0''), toi_ToAddress = addr,
     toi_VaultPubKey = ''old'',
     toi_Coin = \<lparr>coin_Asset = BTCAsset, coin_Amount = amt\<rparr>,
     toi_Memo = ''migrate''\<rparr>"

definition txout_amounts :: "mem_state \<Rightarrow> nat list" where
  "txout_amounts s = map (\<lambda>toi. coin_Amount (toi_Coin toi)) (st_txout s)"

text \<open>A yggdrasil vault of the node \<open>node1\<close>, a state with that node, its status and
  its bond, and one active asgard vault, and a yggdrasil-return message of two coins
  sent to a given address.\<close>

definition mem_ygg_vault :: Vault where
  "mem_ygg_vault = mem_vault ''node1'' YggdrasilVault ActiveVault 10 []"

definition mem_ygg_state :: "NodeStatus \<Rightarrow> nat \<Rightarrow> mem_state" where
  "mem_ygg_state status bond =
    mem_empty\<lparr>st_vaults := [mem_vault ''new1'' AsgardVault ActiveVault 10 []],
               st_nodes := [mem_node ''node1'' status bond]\<rparr>"

definition mem_refund_item :: "nat \<Rightarrow> TxOutItem" where
  "mem_refund_item amt =
    \<lparr>toi_Chain = ''BNB'', toi_InHash = ''TX1'', toi_ToAddress = ''node1'',
     toi_VaultPubKey = [],
     toi_Coin = \<lparr>coin_Asset = RuneAsset, coin_Amount = amt\<rparr>, toi_Memo = []\<rparr>"

definition mem_ygg_coins :: "Coin list" where
  "mem_ygg_coins =
    [\<lparr>coin_Asset = BNBAsset, coin_Amount = 100\<rparr>, \<lparr>coin_Asset = RuneAsset, coin_Amount = 50\<rparr>]"

definition mem_ygg_msg :: "Address \<Rightarrow> MsgYggdrasil" where
  "mem_ygg_msg to_addr =
    \<lparr>msg_PubKey = ''node1'', msg_AddFunds = False, msg_Coins = mem_ygg_coins,
     msg_Tx = \<lparr>tx_ID = ''TX1'', tx_Chain = ''BNB'', tx_FromAddress = ''BNB:node1'',
               tx_ToAddress = to_addr, tx_Coins = mem_ygg_coins, tx_Memo = ''yggdrasil-''\<rparr>\<rparr>"

section \<open>Properties of the memo parser\<close>

lemma stringToTxType_empty: "stringToTxType [] = Inl (ErrInvalidTxType [])"
  by (simp add: stringToTxType_def strings_ToLower_def stringToTxTypeMap_def)

lemma split_head_memo_nonempty:
  assumes "strings_Split memo sep = p0 # fs" and "stringToTxType p0 = Inr tx"
  shows "memo \<noteq> []"
proof
  assume "memo = []"
  with assms(1) have "p0 = []" by simp
  with assms(2) show False by (simp add: stringToTxType_empty)
qed

lemma ParseMemo_fields:
  assumes "strings_Split memo (CHR '':'') = p0 # fs" and "stringToTxType p0 = Inr tx"
  shows "ParseMemo env memo =
    (if tx \<notin> set noAssetMemos then
       (if length (p0 # fs) < 2 then Inl (ErrCannotParseMemo (length (p0 # fs)))
        else (case NewAsset env ((p0 # fs) ! 1) of
                Inl e \<Rightarrow> Inl e
              | Inr asset \<Rightarrow> ParseMemo_switch env tx (p0 # fs) asset))
     else ParseMemo_switch env tx (p0 # fs) EmptyAsset)"
  using assms split_head_memo_nonempty[OF assms]
  by (simp add: ParseMemo_def Let_def)

lemma stringToTxType_unstake: "stringToTxType ''unstake'' = Inr txUnstake"
  by (simp add: stringToTxType_def strings_ToLower_def lower_char_def stringToTxTypeMap_def)

lemma stringToTxType_stake: "stringToTxType ''stake'' = Inr txStake"
  by (simp add: stringToTxType_def strings_ToLower_def lower_char_def stringToTxTypeMap_def)

lemma mem_NewAsset_BNB: "NewAsset mem_memo_env ''BNB.BNB'' = Inr BNBAsset"
  by (simp add: mem_memo_env_def mem_NewAsset_def BNBAsset_def)

lemma mem_NewAsset_BTC: "NewAsset mem_memo_env ''BTC.BTC'' = Inr BTCAsset"
  by (simp add: mem_memo_env_def mem_NewAsset_def BTCAsset_def)

lemma mem_ParseUint_5000: "ParseUint mem_memo_env ''5000'' = Inr 5000"
  by (simp add: mem_memo_env_def mem_ParseUint_def digit_val_def)

lemma mem_ParseUint_0: "ParseUint mem_memo_env ''0'' = Inr 0"
  by (simp add: mem_memo_env_def mem_ParseUint_def digit_val_def)

lemma mem_ParseUint_10001: "ParseUint mem_memo_env ''10001'' = Inr 10001"
  by (simp add: mem_memo_env_def mem_ParseUint_def digit_val_def)

text \<open>
  C3. Parsing a memo should give a memo whose type is the action the memo names; for
  the memo \<open>reserve\<close> the type should be the reserve action. The case \<open>txReserve\<close> of
  \<open>ParseMemo\<close> builds its \<open>ReserveMemo\<close> with the type \<open>txYggdrasilReturn\<close>: the
  parse succeeds, the memo's type is the yggdrasil-return action, and \<open>IsType\<close>
  denies that it is a reserve memo.
\<close>

theorem ParseMemo_reserve_type:
  "ParseMemo env ''reserve'' =
     Inr (ReserveMemo \<lparr>mb_TxType = txYggdrasilReturn, mb_Asset = EmptyAsset\<rparr>)
   \<and> GetType (ReserveMemo \<lparr>mb_TxType = txYggdrasilReturn, mb_Asset = EmptyAsset\<rparr>)
       = txYggdrasilReturn
   \<and> \<not> IsType (ReserveMemo \<lparr>mb_TxType = txYggdrasilReturn, mb_Asset = EmptyAsset\<rparr>) txReserve"
  by (simp add: ParseMemo_def ParseMemo_switch_def stringToTxType_def strings_ToLower_def
      lower_char_def stringToTxTypeMap_def noAssetMemos_def GetType_def IsType_def
      TxType_Equals_def TxType_String_def txToStringMap_def)

theorem ParseMemo_reserve_type_witness:
  "ParseMemo mem_memo_env ''reserve'' =
     Inr (ReserveMemo \<lparr>mb_TxType = txYggdrasilReturn, mb_Asset = EmptyAsset\<rparr>)
   \<and> GetType (ReserveMemo \<lparr>mb_TxType = txYggdrasilReturn, mb_Asset = EmptyAsset\<rparr>)
       = txYggdrasilReturn
   \<and> \<not> IsType (ReserveMemo \<lparr>mb_TxType = txYggdrasilReturn, mb_Asset = EmptyAsset\<rparr>) txReserve"
  by (rule ParseMemo_reserve_type)

text \<open>
  The constructors \<open>NewOutboundMemo\<close> and \<open>NewRefundMemo\<close> leave the embedded base
  empty, so a parsed outbound or refund memo has the type \<open>txUnknown\<close>.
\<close>

lemma ParseMemo_outbound_refund_type:
  assumes "strings_Split memo (CHR '':'') = p0 # p1 # rest"
    and "NewTxID env p1 = Inr txID"
  shows "stringToTxType p0 = Inr txOutbound \<Longrightarrow>
           ParseMemo env memo = Inr (OutboundMemo zeroMemoBase txID)
           \<and> GetType (OutboundMemo zeroMemoBase txID) = txUnknown"
    and "stringToTxType p0 = Inr txRefund \<Longrightarrow>
           ParseMemo env memo = Inr (RefundMemo zeroMemoBase txID)
           \<and> GetType (RefundMemo zeroMemoBase txID) = txUnknown"
  using assms
  by (simp_all add: ParseMemo_fields noAssetMemos_def ParseMemo_switch_def NewOutboundMemo_def
      NewRefundMemo_def GetType_def zeroMemoBase_def)

text \<open>
  C5. An unstake memo (a memo whose first field is an unstake action) with no further
  field is rejected. With an asset the library accepts and a third field, the parse
  fails when the library cannot read the third field as a number, fails when the number
  is \<open>0\<close> or greater than \<open>10000\<close>, and otherwise returns an \<open>UnstakeMemo\<close> of that
  asset carrying the third field as its amount.
\<close>

theorem ParseMemo_unstake_basis_points:
  assumes split: "strings_Split memo (CHR '':'') = p0 # fs"
    and ty: "stringToTxType p0 = Inr txUnstake"
  shows "(fs = [] \<longrightarrow> ParseMemo env memo = Inl (ErrCannotParseMemo 1))
    \<and> (fs = p1 # p2 # rest \<and> NewAsset env p1 = Inr asset \<longrightarrow>
          (case ParseUint env p2 of
             Inl e \<Rightarrow> ParseMemo env memo = Inl e
           | Inr wa \<Rightarrow>
               ParseMemo env memo =
                 (if 0 < wa \<and> wa \<le> 10000
                  then Inr (UnstakeMemo \<lparr>mb_TxType = txUnstake, mb_Asset = asset\<rparr> p2)
                  else Inl (ErrWithdrawAmountInvalid p2))))"
  by (auto simp: ParseMemo_fields[OF split ty] noAssetMemos_def ParseMemo_switch_def
      MaxUnstakeBasisPoints_def Let_def split: sum.splits)

theorem ParseMemo_unstake_basis_points_witness:
  "ParseMemo mem_memo_env ''unstake:BNB.BNB:5000'' =
     Inr (UnstakeMemo \<lparr>mb_TxType = txUnstake, mb_Asset = BNBAsset\<rparr> ''5000'')
   \<and> ParseMemo mem_memo_env ''unstake:BNB.BNB:0'' = Inl (ErrWithdrawAmountInvalid ''0'')
   \<and> ParseMemo mem_memo_env ''unstake:BNB.BNB:10001'' = Inl (ErrWithdrawAmountInvalid ''10001'')
   \<and> ParseMemo mem_memo_env ''unstake'' = Inl (ErrCannotParseMemo 1)"
proof -
  have s1: "strings_Split ''unstake:BNB.BNB:5000'' (CHR '':'') = ''unstake'' # [''BNB.BNB'', ''5000'']"
    by simp
  have s2: "strings_Split ''unstake:BNB.BNB:0'' (CHR '':'') = ''unstake'' # [''BNB.BNB'', ''0'']"
    by simp
  have s3: "strings_Split ''unstake:BNB.BNB:10001'' (CHR '':'') = ''unstake'' # [''BNB.BNB'', ''10001'']"
    by simp
  have s4: "strings_Split ''unstake'' (CHR '':'') = ''unstake'' # []"
    by simp
  note ty = stringToTxType_unstake
  from ParseMemo_unstake_basis_points[OF s1 ty, where env = mem_memo_env and ?p1.0 = "''BNB.BNB''"
      and ?p2.0 = "''5000''" and rest = "[]" and asset = BNBAsset]
  have c1: "ParseMemo mem_memo_env ''unstake:BNB.BNB:5000'' =
     Inr (UnstakeMemo \<lparr>mb_TxType = txUnstake, mb_Asset = BNBAsset\<rparr> ''5000'')"
    by (simp add: mem_NewAsset_BNB mem_ParseUint_5000)
  from ParseMemo_unstake_basis_points[OF s2 ty, where env = mem_memo_env and ?p1.0 = "''BNB.BNB''"
      and ?p2.0 = "''0''" and rest = "[]" and asset = BNBAsset]
  have c2: "ParseMemo mem_memo_env ''unstake:BNB.BNB:0'' = Inl (ErrWithdrawAmountInvalid ''0'')"
    by (simp add: mem_NewAsset_BNB mem_ParseUint_0)
  from ParseMemo_unstake_basis_points[OF s3 ty, where env = mem_memo_env and ?p1.0 = "''BNB.BNB''"
      and ?p2.0 = "''10001''" and rest = "[]" and asset = BNBAsset]
  have c3: "ParseMemo mem_memo_env ''unstake:BNB.BNB:10001'' = Inl (ErrWithdrawAmountInvalid ''10001'')"
    by (simp add: mem_NewAsset_BNB mem_ParseUint_10001)
  from ParseMemo_unstake_basis_points[OF s4 ty, where env = mem_memo_env]
  have c4: "ParseMemo mem_memo_env ''unstake'' = Inl (ErrCannotParseMemo 1)"
    by simp
  from c1 c2 c3 c4 show ?thesis by blast
qed

text \<open>
  C9. A stake memo whose asset is on a chain other than the BNB chain (the chain on
  which RUNE lives; the source tests \<open>asset.Chain.IsBNB()\<close>) is rejected when it has
  no third field, and otherwise, when the library accepts the third field as an
  address, yields a \<open>StakeMemo\<close> whose destination is that address. A stake memo for
  an asset of the BNB chain succeeds with no address, whatever follows the asset.
\<close>

theorem ParseMemo_stake_address:
  assumes split: "strings_Split memo (CHR '':'') = p0 # p1 # rest"
    and ty: "stringToTxType p0 = Inr txStake"
    and asset: "NewAsset env p1 = Inr asset"
  shows "(\<not> IsBNB env (asset_Chain asset) \<and> rest = [] \<longrightarrow>
            ParseMemo env memo = Inl ErrStakeNoAddress)
    \<and> (\<not> IsBNB env (asset_Chain asset) \<and> rest = p2 # others \<and> NewAddress env p2 = Inr addr \<longrightarrow>
            ParseMemo env memo =
              Inr (StakeMemo \<lparr>mb_TxType = txStake, mb_Asset = asset\<rparr> [] [] addr)
            \<and> GetDestination (StakeMemo \<lparr>mb_TxType = txStake, mb_Asset = asset\<rparr> [] [] addr)
                = addr)
    \<and> (IsBNB env (asset_Chain asset) \<longrightarrow>
            ParseMemo env memo =
              Inr (StakeMemo \<lparr>mb_TxType = txStake, mb_Asset = asset\<rparr> [] [] NoAddress))"
  using asset
  by (auto simp: ParseMemo_fields[OF split ty] noAssetMemos_def ParseMemo_switch_def)

theorem ParseMemo_stake_address_witness:
  "ParseMemo mem_memo_env ''stake:BTC.BTC'' = Inl ErrStakeNoAddress
   \<and> ParseMemo mem_memo_env ''stake:BTC.BTC:bc1q'' =
       Inr (StakeMemo \<lparr>mb_TxType = txStake, mb_Asset = BTCAsset\<rparr> [] [] ''bc1q'')
   \<and> ParseMemo mem_memo_env ''stake:BNB.BNB'' =
       Inr (StakeMemo \<lparr>mb_TxType = txStake, mb_Asset = BNBAsset\<rparr> [] [] NoAddress)"
proof -
  have s1: "strings_Split ''stake:BTC.BTC'' (CHR '':'') = ''stake'' # ''BTC.BTC'' # []"
    by simp
  have s2: "strings_Split ''stake:BTC.BTC:bc1q'' (CHR '':'') = ''stake'' # ''BTC.BTC'' # [''bc1q'']"
    by simp
  have s3: "strings_Split ''stake:BNB.BNB'' (CHR '':'') = ''stake'' # ''BNB.BNB'' # []"
    by simp
  note ty = stringToTxType_stake
  have nb: "\<not> IsBNB mem_memo_env (asset_Chain BTCAsset)"
    by (simp add: mem_memo_env_def BTCAsset_def)
  have b: "IsBNB mem_memo_env (asset_Chain BNBAsset)"
    by (simp add: mem_memo_env_def BNBAsset_def)
  have ad: "NewAddress mem_memo_env ''bc1q'' = Inr ''bc1q''"
    by (simp add: mem_memo_env_def)
  from ParseMemo_stake_address[OF s1 ty mem_NewAsset_BTC] nb
  have c1: "ParseMemo mem_memo_env ''stake:BTC.BTC'' = Inl ErrStakeNoAddress"
    by blast
  from ParseMemo_stake_address[OF s2 ty mem_NewAsset_BTC, where ?p2.0 = "''bc1q''"
      and others = "[]" and addr = "''bc1q''"] nb ad
  have c2: "ParseMemo mem_memo_env ''stake:BTC.BTC:bc1q'' =
       Inr (StakeMemo \<lparr>mb_TxType = txStake, mb_Asset = BTCAsset\<rparr> [] [] ''bc1q'')"
    by blast
  from ParseMemo_stake_address[OF s3 ty mem_NewAsset_BNB] b
  have c3: "ParseMemo mem_memo_env ''stake:BNB.BNB'' =
       Inr (StakeMemo \<lparr>mb_TxType = txStake, mb_Asset = BNBAsset\<rparr> [] [] NoAddress)"
    by blast
  from c1 c2 c3 show ?thesis by blast
qed

section \<open>Properties of the keygen store\<close>

lemma FormatUint_7: "FormatUint 7 = ''7''"
  by code_simp

text \<open>
  C10. \<open>GetKeygens\<close> does not fail on a height that has no record: when the store
  holds nothing under the key of the height, the result is the empty \<open>Keygens\<close> of
  that height, with no error. An error is returned only when a record is stored under
  the key and the codec fails to decode it.
\<close>

theorem GetKeygens_missing_height:
  "(store (GetKey k (prefixKeygen k) (FormatUint height)) = None \<longrightarrow>
      GetKeygens k store height = Inr (NewKeygens height)
      \<and> kg_Height (NewKeygens height) = height
      \<and> kg_Keygens (NewKeygens height) = [])
   \<and> (GetKeygens k store height = Inl err \<longrightarrow>
        (\<exists>buf e. store (GetKey k (prefixKeygen k) (FormatUint height)) = Some buf
           \<and> UnmarshalBinaryBare k buf = Inl e
           \<and> err = dbError ''fail to unmarshal keygens'' e))"
  by (auto simp: GetKeygens_def NewKeygens_def Let_def split: option.splits sum.splits)

theorem GetKeygens_missing_height_witness:
  "GetKeygens mem_kv_env Map.empty 7 = Inr (NewKeygens 7)
   \<and> kg_Height (NewKeygens (7::nat)) = 7
   \<and> kg_Keygens (NewKeygens (7::nat)) = []
   \<and> (\<exists>buf e. [''keygen/7'' \<mapsto> ''seven''] (GetKey mem_kv_env (prefixKeygen mem_kv_env) (FormatUint 7)) = Some buf
           \<and> UnmarshalBinaryBare mem_kv_env buf = Inl e
           \<and> dbError ''fail to unmarshal keygens'' (ErrExternal ''not a number'')
               = dbError ''fail to unmarshal keygens'' e)"
proof -
  have miss: "Map.empty (GetKey mem_kv_env (prefixKeygen mem_kv_env) (FormatUint 7)) = None"
    by simp
  have bad: "GetKeygens mem_kv_env [''keygen/7'' \<mapsto> ''seven''] 7
      = Inl (dbError ''fail to unmarshal keygens'' (ErrExternal ''not a number''))"
    by (simp add: GetKeygens_def mem_kv_env_def FormatUint_7 mem_ParseUint_def digit_val_def)
  from GetKeygens_missing_height[of Map.empty mem_kv_env 7] miss
  have c1: "GetKeygens mem_kv_env Map.empty 7 = Inr (NewKeygens 7)
      \<and> kg_Height (NewKeygens (7::nat)) = 7 \<and> kg_Keygens (NewKeygens (7::nat)) = []"
    by blast
  from GetKeygens_missing_height[of "[''keygen/7'' \<mapsto> ''seven'']" mem_kv_env 7] bad
  have c2: "\<exists>buf e. [''keygen/7'' \<mapsto> ''seven''] (GetKey mem_kv_env (prefixKeygen mem_kv_env) (FormatUint 7)) = Some buf
           \<and> UnmarshalBinaryBare mem_kv_env buf = Inl e
           \<and> dbError ''fail to unmarshal keygens'' (ErrExternal ''not a number'')
               = dbError ''fail to unmarshal keygens'' e"
    by blast
  from c1 c2 show ?thesis by blast
qed

section \<open>Properties of the vault manager\<close>

text \<open>
  C6. Genesis setup. At a height other than 1 nothing is done. At height 1, when an
  asgard vault exists, nothing is done; when none exists and exactly one node account
  is active, one vault is saved: an active asgard vault of height 0 whose key and
  only member is the key of that node; when several node accounts are active, no vault
  is saved and one \<open>Keygens\<close> record is stored, of height 1, whose single group holds
  the keys of all active node accounts.
\<close>

theorem processGenesisSetup_vault_or_keygen:
  "(height \<noteq> 1 \<longrightarrow> processGenesisSetup vm height s = (None, s))
   \<and> (GetAsgardVaults (vm_k vm) s = Inr vaults \<and> vaults \<noteq> [] \<longrightarrow>
        processGenesisSetup vm 1 s = (None, s))
   \<and> (GetAsgardVaults (vm_k vm) s = Inr [] \<and> ListActiveNodeAccounts (vm_k vm) s = Inr [na] \<longrightarrow>
        processGenesisSetup vm 1 s =
          (case SetVault (vm_k vm) s
                  \<lparr>vault_BlockHeight = 0, vault_PubKey = na_PubKey na, vault_Coins = [],
                   vault_Type = AsgardVault, vault_Status = ActiveVault,
                   vault_StatusSince = 0, vault_Membership = [na_PubKey na]\<rparr> of
             Inl err \<Rightarrow> (Some (ErrFailSaveVault err), s)
           | Inr s' \<Rightarrow> (None, s')))
   \<and> (GetAsgardVaults (vm_k vm) s = Inr [] \<and> ListActiveNodeAccounts (vm_k vm) s = Inr active
        \<and> length active > 1 \<longrightarrow>
        processGenesisSetup vm 1 s =
          (case Keeper_SetKeygens (vm_k vm) s
                  \<lparr>kg_Height = 1, kg_Keygens = [map na_PubKey active]\<rparr> of
             Inl err \<Rightarrow> (Some (ErrFailTriggerKeygen err), s)
           | Inr s' \<Rightarrow> (None, s')))"
  by (auto simp: processGenesisSetup_def genesisBlockHeight_def NewVault_def TriggerKeygen_def
      NewKeygens_def Let_def split: sum.splits)

theorem processGenesisSetup_vault_or_keygen_witness:
  "processGenesisSetup mem_vm 2 mem_empty = (None, mem_empty)
   \<and> processGenesisSetup mem_vm 1
        (mem_empty\<lparr>st_vaults := [mem_vault ''v0'' AsgardVault ActiveVault 0 []]\<rparr>)
       = (None, mem_empty\<lparr>st_vaults := [mem_vault ''v0'' AsgardVault ActiveVault 0 []]\<rparr>)
   \<and> processGenesisSetup mem_vm 1 (mem_empty\<lparr>st_nodes := [mem_node ''n1'' NodeActive 100]\<rparr>)
       = (None, mem_empty\<lparr>st_nodes := [mem_node ''n1'' NodeActive 100],
                          st_vaults :=
                            [\<lparr>vault_BlockHeight = 0, vault_PubKey = ''n1'', vault_Coins = [],
                              vault_Type = AsgardVault, vault_Status = ActiveVault,
                              vault_StatusSince = 0, vault_Membership = [''n1'']\<rparr>]\<rparr>)
   \<and> processGenesisSetup mem_vm 1
        (mem_empty\<lparr>st_nodes := [mem_node ''n1'' NodeActive 100, mem_node ''n2'' NodeActive 100]\<rparr>)
       = (None, mem_empty\<lparr>st_nodes := [mem_node ''n1'' NodeActive 100, mem_node ''n2'' NodeActive 100],
                          st_keygens := [\<lparr>kg_Height = 1, kg_Keygens = [[''n1'', ''n2'']]\<rparr>]\<rparr>)"
proof -
  let ?v0 = "mem_empty\<lparr>st_vaults := [mem_vault ''v0'' AsgardVault ActiveVault 0 []]\<rparr>"
  let ?s1 = "mem_empty\<lparr>st_nodes := [mem_node ''n1'' NodeActive 100]\<rparr>"
  let ?s2 = "mem_empty\<lparr>st_nodes := [mem_node ''n1'' NodeActive 100, mem_node ''n2'' NodeActive 100]\<rparr>"
  have h: "(2::int) \<noteq> 1" by simp
  have v0: "GetAsgardVaults (vm_k mem_vm) ?v0 = Inr [mem_vault ''v0'' AsgardVault ActiveVault 0 []]"
    by (simp add: mem_vm_def mem_keeper_def mem_empty_def mem_vault_def NewVault_def)
  have e1: "GetAsgardVaults (vm_k mem_vm) ?s1 = Inr []"
    by (simp add: mem_vm_def mem_keeper_def mem_empty_def)
  have a1: "ListActiveNodeAccounts (vm_k mem_vm) ?s1 = Inr [mem_node ''n1'' NodeActive 100]"
    by (simp add: mem_vm_def mem_keeper_def mem_empty_def mem_node_def)
  have e2: "GetAsgardVaults (vm_k mem_vm) ?s2 = Inr []"
    by (simp add: mem_vm_def mem_keeper_def mem_empty_def)
  have a2: "ListActiveNodeAccounts (vm_k mem_vm) ?s2
      = Inr [mem_node ''n1'' NodeActive 100, mem_node ''n2'' NodeActive 100]"
    by (simp add: mem_vm_def mem_keeper_def mem_empty_def mem_node_def)
  have l2: "length [mem_node ''n1'' NodeActive 100, mem_node ''n2'' NodeActive 100] > 1"
    by simp
  from processGenesisSetup_vault_or_keygen[of 2 mem_vm mem_empty] h
  have c0: "processGenesisSetup mem_vm 2 mem_empty = (None, mem_empty)"
    by blast
  from processGenesisSetup_vault_or_keygen[of _ mem_vm ?v0 "[mem_vault ''v0'' AsgardVault ActiveVault 0 []]"] v0
  have c1: "processGenesisSetup mem_vm 1 ?v0 = (None, ?v0)"
    by blast
  from processGenesisSetup_vault_or_keygen[of _ mem_vm ?s1 _ "mem_node ''n1'' NodeActive 100"] e1 a1
  have "processGenesisSetup mem_vm 1 ?s1 =
          (case SetVault (vm_k mem_vm) ?s1
                  \<lparr>vault_BlockHeight = 0, vault_PubKey = na_PubKey (mem_node ''n1'' NodeActive 100),
                   vault_Coins = [],
                   vault_Type = AsgardVault, vault_Status = ActiveVault,
                   vault_StatusSince = 0,
                   vault_Membership = [na_PubKey (mem_node ''n1'' NodeActive 100)]\<rparr> of
             Inl err \<Rightarrow> (Some (ErrFailSaveVault err), ?s1)
           | Inr s' \<Rightarrow> (None, s'))"
    by blast
  then have c2: "processGenesisSetup mem_vm 1 ?s1
       = (None, mem_empty\<lparr>st_nodes := [mem_node ''n1'' NodeActive 100],
                          st_vaults :=
                            [\<lparr>vault_BlockHeight = 0, vault_PubKey = ''n1'', vault_Coins = [],
                              vault_Type = AsgardVault, vault_Status = ActiveVault,
                              vault_StatusSince = 0, vault_Membership = [''n1'']\<rparr>]\<rparr>)"
    by (simp add: mem_vm_def mem_keeper_def mem_empty_def mem_node_def)
  from processGenesisSetup_vault_or_keygen[of _ mem_vm ?s2 _ _
      "[mem_node ''n1'' NodeActive 100, mem_node ''n2'' NodeActive 100]"] e2 a2 l2
  have "processGenesisSetup mem_vm 1 ?s2 =
          (case Keeper_SetKeygens (vm_k mem_vm) ?s2
                  \<lparr>kg_Height = 1,
                   kg_Keygens = [map na_PubKey
                     [mem_node ''n1'' NodeActive 100, mem_node ''n2'' NodeActive 100]]\<rparr> of
             Inl err \<Rightarrow> (Some (ErrFailTriggerKeygen err), ?s2)
           | Inr s' \<Rightarrow> (None, s'))"
    by blast
  then have c3: "processGenesisSetup mem_vm 1 ?s2
       = (None, mem_empty\<lparr>st_nodes := [mem_node ''n1'' NodeActive 100, mem_node ''n2'' NodeActive 100],
                          st_keygens := [\<lparr>kg_Height = 1, kg_Keygens = [[''n1'', ''n2'']]\<rparr>]\<rparr>)"
    by (simp add: mem_vm_def mem_keeper_def mem_empty_def mem_node_def)
  from c0 c1 c2 c3 show ?thesis by blast
qed

subsection \<open>The migration of a retiring vault\<close>

text \<open>
  Go's \<open>%\<close> and \<open>/\<close> on \<open>int64\<close> truncate towards zero; on a positive multiple of a
  positive interval they give 0 and the multiple.
\<close>

lemma smod_multiple:
  assumes "0 < (i::int)" and "0 < k"
  shows "(k * i) smod i = 0" and "(k * i) sdiv i = k"
  using assms by (simp_all add: signed_modulo_int_def signed_divide_int_def sgn_mult abs_mult)

lemma uint64_small: "0 \<le> n \<Longrightarrow> n < 5 \<Longrightarrow> uint64 n = nat n"
  by (simp add: uint64_def)

lemma EndBlock_pick_first_least:
  "EndBlock_pick asset vs (cn, pk) = (cn', pk') \<Longrightarrow>
     ((\<forall>u \<in> set vs. coin_Amount cn \<le> coin_Amount (GetCoin u asset)) \<longrightarrow>
        (cn', pk') = (cn, pk))
     \<and> ((\<exists>u \<in> set vs. coin_Amount (GetCoin u asset) < coin_Amount cn) \<longrightarrow>
        (\<exists>q < length vs. cn' = GetCoin (vs ! q) asset \<and> pk' = vault_PubKey (vs ! q)
           \<and> coin_Amount (GetCoin (vs ! q) asset) < coin_Amount cn
           \<and> (\<forall>u \<in> set vs. coin_Amount (GetCoin (vs ! q) asset) \<le> coin_Amount (GetCoin u asset))
           \<and> (\<forall>r < q. coin_Amount (GetCoin (vs ! q) asset)
                          < coin_Amount (GetCoin (vs ! r) asset))))"
proof (induction vs arbitrary: cn pk)
  case Nil
  then show ?case by simp
next
  case (Cons a vs)
  let ?amt = "\<lambda>v. coin_Amount (GetCoin v asset)"
  show ?case
  proof (cases "coin_Amount cn > ?amt a")
    case True
    with Cons.prems have run: "EndBlock_pick asset vs (GetCoin a asset, vault_PubKey a) = (cn', pk')"
      by simp
    note ih = Cons.IH[OF run]
    have first: "\<not> (\<forall>u \<in> set (a # vs). coin_Amount cn \<le> ?amt u)"
      using True by auto
    have "\<exists>q < length (a # vs). cn' = GetCoin ((a # vs) ! q) asset
           \<and> pk' = vault_PubKey ((a # vs) ! q)
           \<and> ?amt ((a # vs) ! q) < coin_Amount cn
           \<and> (\<forall>u \<in> set (a # vs). ?amt ((a # vs) ! q) \<le> ?amt u)
           \<and> (\<forall>r < q. ?amt ((a # vs) ! q) < ?amt ((a # vs) ! r))"
    proof (cases "\<forall>u \<in> set vs. ?amt a \<le> ?amt u")
      case True
      with ih have "(cn', pk') = (GetCoin a asset, vault_PubKey a)" by blast
      with True \<open>coin_Amount cn > ?amt a\<close> show ?thesis
        by (intro exI[of _ 0]) auto
    next
      case False
      then have "\<exists>u \<in> set vs. ?amt u < ?amt a" by (meson not_le_imp_less)
      with ih obtain q where q: "q < length vs" "cn' = GetCoin (vs ! q) asset"
        "pk' = vault_PubKey (vs ! q)" "?amt (vs ! q) < ?amt a"
        "\<forall>u \<in> set vs. ?amt (vs ! q) \<le> ?amt u"
        "\<forall>r < q. ?amt (vs ! q) < ?amt (vs ! r)"
        by auto
      have "\<forall>r < Suc q. ?amt (vs ! q) < ?amt ((a # vs) ! r)"
      proof (intro allI impI)
        fix r assume "r < Suc q"
        then show "?amt (vs ! q) < ?amt ((a # vs) ! r)"
          using q(4,6) by (cases r) auto
      qed
      with q \<open>coin_Amount cn > ?amt a\<close> show ?thesis
        by (intro exI[of _ "Suc q"]) auto
    qed
    with first show ?thesis by blast
  next
    case False
    with Cons.prems have run: "EndBlock_pick asset vs (cn, pk) = (cn', pk')"
      by simp
    note ih = Cons.IH[OF run]
    have keep: "(\<forall>u \<in> set (a # vs). coin_Amount cn \<le> ?amt u) \<longrightarrow> (cn', pk') = (cn, pk)"
      using ih by auto
    have move: "(\<exists>u \<in> set (a # vs). ?amt u < coin_Amount cn) \<longrightarrow>
        (\<exists>q < length (a # vs). cn' = GetCoin ((a # vs) ! q) asset
           \<and> pk' = vault_PubKey ((a # vs) ! q)
           \<and> ?amt ((a # vs) ! q) < coin_Amount cn
           \<and> (\<forall>u \<in> set (a # vs). ?amt ((a # vs) ! q) \<le> ?amt u)
           \<and> (\<forall>r < q. ?amt ((a # vs) ! q) < ?amt ((a # vs) ! r)))"
    proof
      assume "\<exists>u \<in> set (a # vs). ?amt u < coin_Amount cn"
      with False have "\<exists>u \<in> set vs. ?amt u < coin_Amount cn" by auto
      with ih obtain q where q: "q < length vs" "cn' = GetCoin (vs ! q) asset"
        "pk' = vault_PubKey (vs ! q)" "?amt (vs ! q) < coin_Amount cn"
        "\<forall>u \<in> set vs. ?amt (vs ! q) \<le> ?amt u"
        "\<forall>r < q. ?amt (vs ! q) < ?amt (vs ! r)"
        by auto
      have "\<forall>r < Suc q. ?amt (vs ! q) < ?amt ((a # vs) ! r)"
      proof (intro allI impI)
        fix r assume "r < Suc q"
        then show "?amt (vs ! q) < ?amt ((a # vs) ! r)"
          using q(4,6) False by (cases r) auto
      qed
      with q False show "\<exists>q < length (a # vs). cn' = GetCoin ((a # vs) ! q) asset
           \<and> pk' = vault_PubKey ((a # vs) ! q)
           \<and> ?amt ((a # vs) ! q) < coin_Amount cn
           \<and> (\<forall>u \<in> set (a # vs). ?amt ((a # vs) ! q) \<le> ?amt u)
           \<and> (\<forall>r < q. ?amt ((a # vs) ! q) < ?amt ((a # vs) ! r))"
        by (intro exI[of _ "Suc q"]) auto
    qed
    from keep move show ?thesis by blast
  qed
qed

text \<open>The receiver is the first of the active vaults that hold the least of the asset.\<close>

lemma EndBlock_receiver_first_least:
  assumes "active \<noteq> []"
  shows "\<exists>q < length active.
           EndBlock_receiver active asset
             = (GetCoin (active ! q) asset, vault_PubKey (active ! q))
           \<and> (\<forall>u \<in> set active.
                 coin_Amount (GetCoin (active ! q) asset) \<le> coin_Amount (GetCoin u asset))
           \<and> (\<forall>r < q. coin_Amount (GetCoin (active ! q) asset)
                          < coin_Amount (GetCoin (active ! r) asset))"
proof -
  let ?amt = "\<lambda>v. coin_Amount (GetCoin v asset)"
  from assms obtain a vs where avs: "active = a # vs" by (cases active) auto
  obtain cn' pk' where run:
    "EndBlock_pick asset active (GetCoin a asset, vault_PubKey a) = (cn', pk')"
    by (cases "EndBlock_pick asset active (GetCoin a asset, vault_PubKey a)") auto
  then have rec: "EndBlock_receiver active asset = (cn', pk')"
    by (simp add: EndBlock_receiver_def avs)
  note fl = EndBlock_pick_first_least[OF run]
  show ?thesis
  proof (cases "\<forall>u \<in> set active. ?amt a \<le> ?amt u")
    case True
    with fl have "(cn', pk') = (GetCoin a asset, vault_PubKey a)" by simp
    with rec True avs show ?thesis
      by (intro exI[of _ 0]) auto
  next
    case False
    then have "\<exists>u \<in> set active. ?amt u < ?amt a" by (meson not_le_imp_less)
    with fl obtain q where "q < length active" "cn' = GetCoin (active ! q) asset"
      "pk' = vault_PubKey (active ! q)"
      "\<forall>u \<in> set active. ?amt (active ! q) \<le> ?amt u"
      "\<forall>r < q. ?amt (active ! q) < ?amt (active ! r)"
      by auto
    with rec show ?thesis by blast
  qed
qed

lemma EndBlock_receiver_unique:
  assumes "q < length active"
    and least: "\<forall>u \<in> set active.
                 coin_Amount (GetCoin (active ! q) asset) \<le> coin_Amount (GetCoin u asset)"
    and first: "\<forall>r < q. coin_Amount (GetCoin (active ! q) asset)
                          < coin_Amount (GetCoin (active ! r) asset)"
  shows "EndBlock_receiver active asset
           = (GetCoin (active ! q) asset, vault_PubKey (active ! q))"
proof -
  let ?amt = "\<lambda>v. coin_Amount (GetCoin v asset)"
  from assms(1) have "active \<noteq> []" by auto
  from EndBlock_receiver_first_least[OF this, of asset] obtain p where p: "p < length active"
    "EndBlock_receiver active asset = (GetCoin (active ! p) asset, vault_PubKey (active ! p))"
    "\<forall>u \<in> set active. ?amt (active ! p) \<le> ?amt u"
    "\<forall>r < p. ?amt (active ! p) < ?amt (active ! r)"
    by blast
  have "p = q"
  proof (rule ccontr)
    assume "p \<noteq> q"
    then consider "p < q" | "q < p" by linarith
    then show False
    proof cases
      case 1
      with first have "?amt (active ! q) < ?amt (active ! p)" by simp
      moreover from p(3) assms(1) have "?amt (active ! p) \<le> ?amt (active ! q)" by simp
      ultimately show False by simp
    next
      case 2
      with p(4) have "?amt (active ! p) < ?amt (active ! q)" by simp
      moreover from least p(1) have "?amt (active ! q) \<le> ?amt (active ! p)" by simp
      ultimately show False by simp
    qed
  qed
  with p(2) show ?thesis by simp
qed

lemma EndBlock_item_Inr_iff:
  "EndBlock_item env height migrateInterval active vault coin = Inr toi \<longleftrightarrow>
    (\<exists>addr amt.
       GetAddress env (snd (EndBlock_receiver active (coin_Asset coin)))
           (asset_Chain (coin_Asset coin)) = Inr addr
       \<and> EndBlock_amt (EndBlock_nth height (vault_StatusSince vault) migrateInterval)
            (coin_Amount coin) = Inr amt
       \<and> toi = \<lparr>toi_Chain = asset_Chain (coin_Asset coin), toi_InHash = BlankTxID env,
                 toi_ToAddress = addr, toi_VaultPubKey = vault_PubKey vault,
                 toi_Coin = \<lparr>coin_Asset = coin_Asset coin, coin_Amount = amt\<rparr>,
                 toi_Memo = ''migrate''\<rparr>)"
  by (auto simp: EndBlock_item_def Let_def split: prod.splits sum.splits)

lemma EndBlock_amt_round:
  assumes "0 < k" and "4 * amt < 2 ^ 256"
  shows "EndBlock_amt (1 + k) amt = Inr (if 1 + k < 5 then amt * nat (1 + k) div 5 else amt)"
proof (cases "1 + k < 5")
  case True
  with assms(1) have u: "uint64 (1 + k) = nat (1 + k)" by (simp add: uint64_small)
  from True have "nat (1 + k) \<le> 4" by simp
  then have "amt * nat (1 + k) \<le> amt * 4" by (rule mult_le_mono2)
  then have "amt * nat (1 + k) \<le> 4 * amt" by (simp only: mult.commute)
  then have "amt * nat (1 + k) < 2 ^ 256" using assms(2) by (rule le_less_trans)
  then have "MulUint64 amt (nat (1 + k)) = Inr (amt * nat (1 + k))"
    by (simp only: MulUint64_def if_True)
  with True u show ?thesis
    by (simp add: EndBlock_amt_def QuoUint64_def)
next
  case False
  then show ?thesis by (simp add: EndBlock_amt_def)
qed

lemma EndBlock_coins_chain:
  "EndBlock_coins env txOutStore height migrateInterval active vault coins s = (None, s') \<longleftrightarrow>
    (\<exists>sts. length sts = Suc (length coins) \<and> sts ! 0 = s \<and> sts ! length coins = s'
       \<and> (\<forall>j < length coins. \<exists>toi ok.
             EndBlock_item env height migrateInterval active vault (coins ! j) = Inr toi
             \<and> TryAddTxOutItem txOutStore (sts ! j) toi = Inr (ok, sts ! Suc j)))"
proof (induction coins arbitrary: s)
  case Nil
  show ?case
  proof
    assume "EndBlock_coins env txOutStore height migrateInterval active vault [] s = (None, s')"
    then have "s' = s" by simp
    then show "\<exists>sts. length sts = Suc (length ([]::Coin list)) \<and> sts ! 0 = s
       \<and> sts ! length ([]::Coin list) = s'
       \<and> (\<forall>j < length ([]::Coin list). \<exists>toi ok.
             EndBlock_item env height migrateInterval active vault ([] ! j) = Inr toi
             \<and> TryAddTxOutItem txOutStore (sts ! j) toi = Inr (ok, sts ! Suc j))"
      by (intro exI[of _ "[s]"]) simp
  next
    assume "\<exists>sts. length sts = Suc (length ([]::Coin list)) \<and> sts ! 0 = s
       \<and> sts ! length ([]::Coin list) = s'
       \<and> (\<forall>j < length ([]::Coin list). \<exists>toi ok.
             EndBlock_item env height migrateInterval active vault ([] ! j) = Inr toi
             \<and> TryAddTxOutItem txOutStore (sts ! j) toi = Inr (ok, sts ! Suc j))"
    then show "EndBlock_coins env txOutStore height migrateInterval active vault [] s = (None, s')"
      by auto
  qed
next
  case (Cons c cs)
  let ?item = "\<lambda>coin. EndBlock_item env height migrateInterval active vault coin"
  show ?case
  proof
    assume run: "EndBlock_coins env txOutStore height migrateInterval active vault (c # cs) s
        = (None, s')"
    then obtain toi ok s1 where one: "?item c = Inr toi"
      "TryAddTxOutItem txOutStore s toi = Inr (ok, s1)"
      and rest: "EndBlock_coins env txOutStore height migrateInterval active vault cs s1 = (None, s')"
      by (auto split: sum.splits prod.splits)
    from rest Cons.IH[of s1] obtain sts where sts: "length sts = Suc (length cs)"
      "sts ! 0 = s1" "sts ! length cs = s'"
      "\<forall>j < length cs. \<exists>toi ok. ?item (cs ! j) = Inr toi
          \<and> TryAddTxOutItem txOutStore (sts ! j) toi = Inr (ok, sts ! Suc j)"
      by blast
    have "\<forall>j < length (c # cs). \<exists>toi ok. ?item ((c # cs) ! j) = Inr toi
          \<and> TryAddTxOutItem txOutStore ((s # sts) ! j) toi = Inr (ok, (s # sts) ! Suc j)"
    proof (intro allI impI)
      fix j assume "j < length (c # cs)"
      then show "\<exists>toi ok. ?item ((c # cs) ! j) = Inr toi
          \<and> TryAddTxOutItem txOutStore ((s # sts) ! j) toi = Inr (ok, (s # sts) ! Suc j)"
        using one sts by (cases j) auto
    qed
    with sts show "\<exists>sts. length sts = Suc (length (c # cs)) \<and> sts ! 0 = s
       \<and> sts ! length (c # cs) = s'
       \<and> (\<forall>j < length (c # cs). \<exists>toi ok. ?item ((c # cs) ! j) = Inr toi
             \<and> TryAddTxOutItem txOutStore (sts ! j) toi = Inr (ok, sts ! Suc j))"
      by (intro exI[of _ "s # sts"]) simp
  next
    assume "\<exists>sts. length sts = Suc (length (c # cs)) \<and> sts ! 0 = s
       \<and> sts ! length (c # cs) = s'
       \<and> (\<forall>j < length (c # cs). \<exists>toi ok. ?item ((c # cs) ! j) = Inr toi
             \<and> TryAddTxOutItem txOutStore (sts ! j) toi = Inr (ok, sts ! Suc j))"
    then obtain sts where sts: "length sts = Suc (Suc (length cs))" "sts ! 0 = s"
      "sts ! Suc (length cs) = s'"
      and step: "\<forall>j < Suc (length cs). \<exists>toi ok. ?item ((c # cs) ! j) = Inr toi
             \<and> TryAddTxOutItem txOutStore (sts ! j) toi = Inr (ok, sts ! Suc j)"
      by auto
    from sts(1) obtain x tl where tl: "sts = x # tl" "length tl = Suc (length cs)"
      by (cases sts) auto
    from step[rule_format, of 0] sts(2) tl
    obtain toi ok where first: "?item c = Inr toi"
      "TryAddTxOutItem txOutStore s toi = Inr (ok, tl ! 0)"
      by auto
    have "\<forall>j < length cs. \<exists>toi ok. ?item (cs ! j) = Inr toi
          \<and> TryAddTxOutItem txOutStore (tl ! j) toi = Inr (ok, tl ! Suc j)"
    proof (intro allI impI)
      fix j assume "j < length cs"
      with step[rule_format, of "Suc j"] tl
      show "\<exists>toi ok. ?item (cs ! j) = Inr toi
          \<and> TryAddTxOutItem txOutStore (tl ! j) toi = Inr (ok, tl ! Suc j)"
        by simp
    qed
    with tl sts(3)
    have "EndBlock_coins env txOutStore height migrateInterval active vault cs (tl ! 0) = (None, s')"
      using Cons.IH[of "tl ! 0"] by auto
    with first
    show "EndBlock_coins env txOutStore height migrateInterval active vault (c # cs) s = (None, s')"
      by simp
  qed
qed

lemma EndBlock_vaults_append:
  "EndBlock_vaults vm env txOutStore height migrateInterval active (xs @ ys) s =
    (case EndBlock_vaults vm env txOutStore height migrateInterval active xs s of
       (Some err, s') \<Rightarrow> (Some err, s')
     | (None, s') \<Rightarrow> EndBlock_vaults vm env txOutStore height migrateInterval active ys s')"
  by (induction xs arbitrary: s) (auto split: sum.splits prod.splits option.splits)

text \<open>\<open>EndBlock\<close> at a retiring vault with funds whose migration is due: the coins of the
  vault are handled from the state the vaults before it left, then the vaults after it.\<close>

lemma EndBlock_at_vault:
  assumes "height \<noteq> genesisBlockHeight"
    and "GetAsgardVaultsByStatus (vm_k vm) s RetiringVault = Inr (pre @ vault # post)"
    and "GetAsgardVaultsByStatus (vm_k vm) s ActiveVault = Inr active"
    and "active \<noteq> []"
    and "vm_versionedTxOutStore vm (vm_k vm) version = Inr txOutStore"
    and "constAccessor FundMigrationInterval = migrateInterval"
    and "migrateInterval \<noteq> 0"
    and "EndBlock_vaults vm env txOutStore height migrateInterval active pre s = (None, s0)"
    and "HasFunds vault"
    and "(height - vault_StatusSince vault) smod migrateInterval = 0"
  shows "EndBlock vm env height version constAccessor s =
    (case EndBlock_coins env txOutStore height migrateInterval active vault (vault_Coins vault) s0 of
       (Some err, s') \<Rightarrow> (Some err, s')
     | (None, s1) \<Rightarrow> EndBlock_vaults vm env txOutStore height migrateInterval active post s1)"
  using assms by (simp add: EndBlock_def EndBlock_vaults_append)

lemma EndBlock_success_iff:
  assumes "height \<noteq> genesisBlockHeight"
    and "GetAsgardVaultsByStatus (vm_k vm) s RetiringVault = Inr (pre @ vault # post)"
    and "GetAsgardVaultsByStatus (vm_k vm) s ActiveVault = Inr active"
    and "active \<noteq> []"
    and "vm_versionedTxOutStore vm (vm_k vm) version = Inr txOutStore"
    and "constAccessor FundMigrationInterval = migrateInterval"
    and "migrateInterval \<noteq> 0"
    and "EndBlock_vaults vm env txOutStore height migrateInterval active pre s = (None, s0)"
    and "HasFunds vault"
    and "(height - vault_StatusSince vault) smod migrateInterval = 0"
  shows "EndBlock vm env height version constAccessor s = (None, s') \<longleftrightarrow>
    (\<exists>sts. length sts = Suc (length (vault_Coins vault)) \<and> sts ! 0 = s0
       \<and> (\<forall>j < length (vault_Coins vault). \<exists>toi ok.
             EndBlock_item env height migrateInterval active vault (vault_Coins vault ! j) = Inr toi
             \<and> TryAddTxOutItem txOutStore (sts ! j) toi = Inr (ok, sts ! Suc j))
       \<and> EndBlock_vaults vm env txOutStore height migrateInterval active post
            (sts ! length (vault_Coins vault)) = (None, s'))"
proof -
  let ?coins = "vault_Coins vault"
  let ?run = "EndBlock_coins env txOutStore height migrateInterval active vault ?coins s0"
  have at: "EndBlock vm env height version constAccessor s =
    (case ?run of
       (Some err, s') \<Rightarrow> (Some err, s')
     | (None, s1) \<Rightarrow> EndBlock_vaults vm env txOutStore height migrateInterval active post s1)"
    by (rule EndBlock_at_vault[where pre = pre]; fact assms)
  have "EndBlock vm env height version constAccessor s = (None, s') \<longleftrightarrow>
      (\<exists>s1. ?run = (None, s1)
         \<and> EndBlock_vaults vm env txOutStore height migrateInterval active post s1 = (None, s'))"
    unfolding at by (cases ?run) (auto split: option.splits)
  also have "\<dots> \<longleftrightarrow>
    (\<exists>sts. length sts = Suc (length ?coins) \<and> sts ! 0 = s0
       \<and> (\<forall>j < length ?coins. \<exists>toi ok.
             EndBlock_item env height migrateInterval active vault (?coins ! j) = Inr toi
             \<and> TryAddTxOutItem txOutStore (sts ! j) toi = Inr (ok, sts ! Suc j))
       \<and> EndBlock_vaults vm env txOutStore height migrateInterval active post
            (sts ! length ?coins) = (None, s'))"
    unfolding EndBlock_coins_chain by blast
  finally show ?thesis .
qed

lemma EndBlock_step_receiver:
  assumes "active \<noteq> []"
  shows "(\<exists>toi ok. EndBlock_item env height migrateInterval active vault coin = Inr toi
            \<and> TryAddTxOutItem txOutStore x toi = Inr (ok, y)) \<longleftrightarrow>
    (\<exists>q addr amt ok. q < length active
       \<and> (\<forall>u \<in> set active.
             coin_Amount (GetCoin (active ! q) (coin_Asset coin))
               \<le> coin_Amount (GetCoin u (coin_Asset coin)))
       \<and> (\<forall>r < q. coin_Amount (GetCoin (active ! q) (coin_Asset coin))
                      < coin_Amount (GetCoin (active ! r) (coin_Asset coin)))
       \<and> GetAddress env (vault_PubKey (active ! q)) (asset_Chain (coin_Asset coin)) = Inr addr
       \<and> EndBlock_amt (EndBlock_nth height (vault_StatusSince vault) migrateInterval)
            (coin_Amount coin) = Inr amt
       \<and> TryAddTxOutItem txOutStore x
            \<lparr>toi_Chain = asset_Chain (coin_Asset coin), toi_InHash = BlankTxID env,
             toi_ToAddress = addr, toi_VaultPubKey = vault_PubKey vault,
             toi_Coin = \<lparr>coin_Asset = coin_Asset coin, coin_Amount = amt\<rparr>,
             toi_Memo = ''migrate''\<rparr> = Inr (ok, y))"
  (is "?L \<longleftrightarrow> ?R")
proof
  assume ?L
  then obtain addr amt ok where
    a: "GetAddress env (snd (EndBlock_receiver active (coin_Asset coin)))
           (asset_Chain (coin_Asset coin)) = Inr addr"
    and m: "EndBlock_amt (EndBlock_nth height (vault_StatusSince vault) migrateInterval)
            (coin_Amount coin) = Inr amt"
    and t: "TryAddTxOutItem txOutStore x
            \<lparr>toi_Chain = asset_Chain (coin_Asset coin), toi_InHash = BlankTxID env,
             toi_ToAddress = addr, toi_VaultPubKey = vault_PubKey vault,
             toi_Coin = \<lparr>coin_Asset = coin_Asset coin, coin_Amount = amt\<rparr>,
             toi_Memo = ''migrate''\<rparr> = Inr (ok, y)"
    unfolding EndBlock_item_Inr_iff by blast
  from EndBlock_receiver_first_least[OF assms, of "coin_Asset coin"] obtain q where
    q: "q < length active"
    "EndBlock_receiver active (coin_Asset coin)
       = (GetCoin (active ! q) (coin_Asset coin), vault_PubKey (active ! q))"
    "\<forall>u \<in> set active.
             coin_Amount (GetCoin (active ! q) (coin_Asset coin))
               \<le> coin_Amount (GetCoin u (coin_Asset coin))"
    "\<forall>r < q. coin_Amount (GetCoin (active ! q) (coin_Asset coin))
                      < coin_Amount (GetCoin (active ! r) (coin_Asset coin))"
    by blast
  from a q(2) have "GetAddress env (vault_PubKey (active ! q)) (asset_Chain (coin_Asset coin))
      = Inr addr"
    by simp
  with q(1,3,4) m t show ?R by blast
next
  assume ?R
  then obtain q addr amt ok where q: "q < length active"
    "\<forall>u \<in> set active.
             coin_Amount (GetCoin (active ! q) (coin_Asset coin))
               \<le> coin_Amount (GetCoin u (coin_Asset coin))"
    "\<forall>r < q. coin_Amount (GetCoin (active ! q) (coin_Asset coin))
                      < coin_Amount (GetCoin (active ! r) (coin_Asset coin))"
    and a: "GetAddress env (vault_PubKey (active ! q)) (asset_Chain (coin_Asset coin)) = Inr addr"
    and m: "EndBlock_amt (EndBlock_nth height (vault_StatusSince vault) migrateInterval)
            (coin_Amount coin) = Inr amt"
    and t: "TryAddTxOutItem txOutStore x
            \<lparr>toi_Chain = asset_Chain (coin_Asset coin), toi_InHash = BlankTxID env,
             toi_ToAddress = addr, toi_VaultPubKey = vault_PubKey vault,
             toi_Coin = \<lparr>coin_Asset = coin_Asset coin, coin_Amount = amt\<rparr>,
             toi_Memo = ''migrate''\<rparr> = Inr (ok, y)"
    by blast
  from EndBlock_receiver_unique[OF q] a
  have "GetAddress env (snd (EndBlock_receiver active (coin_Asset coin)))
           (asset_Chain (coin_Asset coin)) = Inr addr"
    by simp
  with m t show ?L unfolding EndBlock_item_Inr_iff by blast
qed

lemma EndBlock_step_amount:
  assumes "0 < migrateInterval" and "0 < k"
    and "height - vault_StatusSince vault = k * migrateInterval"
    and "4 * coin_Amount coin < 2 ^ 256"
  shows "(\<exists>toi ok. EndBlock_item env height migrateInterval active vault coin = Inr toi
            \<and> TryAddTxOutItem txOutStore x toi = Inr (ok, y)) \<longleftrightarrow>
    (\<exists>addr ok.
       GetAddress env (snd (EndBlock_receiver active (coin_Asset coin)))
           (asset_Chain (coin_Asset coin)) = Inr addr
       \<and> TryAddTxOutItem txOutStore x
            \<lparr>toi_Chain = asset_Chain (coin_Asset coin), toi_InHash = BlankTxID env,
             toi_ToAddress = addr, toi_VaultPubKey = vault_PubKey vault,
             toi_Coin =
               \<lparr>coin_Asset = coin_Asset coin,
                coin_Amount =
                  (if 1 + (height - vault_StatusSince vault) div migrateInterval < 5
                   then coin_Amount coin
                          * nat (1 + (height - vault_StatusSince vault) div migrateInterval) div 5
                   else coin_Amount coin)\<rparr>,
             toi_Memo = ''migrate''\<rparr> = Inr (ok, y))"
proof -
  have d: "(height - vault_StatusSince vault) div migrateInterval = k"
    using assms(1,3) by simp
  have "EndBlock_nth height (vault_StatusSince vault) migrateInterval = 1 + k"
    using smod_multiple(2)[OF assms(1,2)] assms(3) by (simp add: EndBlock_nth_def)
  then have "EndBlock_amt (EndBlock_nth height (vault_StatusSince vault) migrateInterval)
            (coin_Amount coin)
      = Inr (if 1 + k < 5 then coin_Amount coin * nat (1 + k) div 5 else coin_Amount coin)"
    using EndBlock_amt_round[OF assms(2,4)] by simp
  then show ?thesis
    unfolding EndBlock_item_Inr_iff d by auto
qed

lemma chain_of_one:
  "(\<exists>sts. length sts = Suc (Suc 0) \<and> sts ! 0 = s0 \<and> R (sts ! 0) (sts ! Suc 0) \<and> B (sts ! Suc 0))
     \<longleftrightarrow> (\<exists>s1. R s0 s1 \<and> B s1)"
proof
  assume "\<exists>sts. length sts = Suc (Suc 0) \<and> sts ! 0 = s0 \<and> R (sts ! 0) (sts ! Suc 0)
      \<and> B (sts ! Suc 0)"
  then show "\<exists>s1. R s0 s1 \<and> B s1" by auto
next
  assume "\<exists>s1. R s0 s1 \<and> B s1"
  then obtain s1 where "R s0 s1" "B s1" by blast
  then show "\<exists>sts. length sts = Suc (Suc 0) \<and> sts ! 0 = s0 \<and> R (sts ! 0) (sts ! Suc 0)
      \<and> B (sts ! Suc 0)"
    by (intro exI[of _ "[s0, s1]"]) simp
qed

lemma schedule_1000:
  assumes "0 < (k::int)"
  shows "(if 1 + k < 5 then 1000 * One * nat (1 + k) div 5 else 1000 * One)
    = (if k = 1 then 400 * One else if k = 2 then 600 * One
       else if k = 3 then 800 * One else 1000 * One)"
proof -
  from assms consider "k = 1" | "k = 2" | "k = 3" | "4 \<le> k" by linarith
  then show ?thesis by cases (simp_all add: One_def)
qed

lemma chain_of_singleton:
  "(\<exists>sts. length sts = Suc (length [x]) \<and> sts ! 0 = s0
      \<and> (\<forall>j < length [x]. R ([x] ! j) (sts ! j) (sts ! Suc j)) \<and> B (sts ! length [x]))
     \<longleftrightarrow> (\<exists>s1. R x s0 s1 \<and> B s1)"
  using chain_of_one[of s0 "R x" B] by simp

subsection \<open>The sample state\<close>

text \<open>The retiring vault \<open>old\<close> of 1000 BTC (since block 50) and the active vaults
  \<open>new1\<close> (5 BTC) and \<open>new2\<close> (3 BTC), with an interval of 100.\<close>

lemma mem_GetCoin:
  "GetCoin mem_active1 BTCAsset = \<lparr>coin_Asset = BTCAsset, coin_Amount = 5 * One\<rparr>"
  "GetCoin mem_active2 BTCAsset = \<lparr>coin_Asset = BTCAsset, coin_Amount = 3 * One\<rparr>"
  by (simp_all add: GetCoin_def mem_active1_def mem_active2_def mem_vault_def NewVault_def
      Asset_Equals_def)

lemma mem_HasFunds: "HasFunds mem_retiring"
  by (simp add: HasFunds_def mem_retiring_def mem_vault_def NewVault_def One_def)

lemma mem_EndBlock_receiver:
  "EndBlock_receiver [mem_active1, mem_active2] BTCAsset
     = (\<lparr>coin_Asset = BTCAsset, coin_Amount = 3 * One\<rparr>, ''new2'')"
  by (simp add: EndBlock_receiver_def mem_GetCoin One_def)
     (simp add: mem_active2_def mem_vault_def NewVault_def)

lemma BTCAsset_chain: "asset_Chain BTCAsset = ''BTC''"
  by (simp add: BTCAsset_def)

lemma mem_retiring_fields:
  "vault_Coins mem_retiring = [\<lparr>coin_Asset = BTCAsset, coin_Amount = 1000 * One\<rparr>]"
  "vault_StatusSince mem_retiring = 50"
  "vault_PubKey mem_retiring = ''old''"
  by (simp_all add: mem_retiring_def mem_vault_def NewVault_def)

lemma mem_GetAsgardVaultsByStatus:
  "GetAsgardVaultsByStatus (vm_k mem_vm) mem_migration RetiringVault = Inr [mem_retiring]"
  "GetAsgardVaultsByStatus (vm_k mem_vm) mem_migration ActiveVault
     = Inr [mem_active1, mem_active2]"
  by (simp_all add: mem_vm_def mem_keeper_def mem_migration_def mem_empty_def mem_retiring_def
      mem_active1_def mem_active2_def mem_vault_def NewVault_def)

lemma mem_GetTxOutStore:
  "vm_versionedTxOutStore mem_vm (vm_k mem_vm) version = Inr mem_txOutStore"
  by (simp add: mem_vm_def mem_versionedTxOutStore_def)

lemma mem_GetAddress:
  "GetAddress mem_vault_env (snd (EndBlock_receiver [mem_active1, mem_active2] BTCAsset))
      (asset_Chain BTCAsset) = Inr ''BTC:new2''"
  by (simp add: mem_EndBlock_receiver BTCAsset_chain mem_vault_env_def mem_address_def)

lemma mem_TryAddTxOutItem:
  "TryAddTxOutItem mem_txOutStore mem_migration
      \<lparr>toi_Chain = asset_Chain BTCAsset, toi_InHash = BlankTxID mem_vault_env,
       toi_ToAddress = ''BTC:new2'', toi_VaultPubKey = vault_PubKey mem_retiring,
       toi_Coin = \<lparr>coin_Asset = BTCAsset, coin_Amount = amt\<rparr>,
       toi_Memo = ''migrate''\<rparr>
    = Inr (True, mem_migration\<lparr>st_txout := [mem_item ''BTC:new2'' amt]\<rparr>)"
  by (simp add: mem_txOutStore_def mem_item_def BTCAsset_chain mem_vault_env_def
      mem_retiring_fields mem_migration_def mem_empty_def)

lemma mem_EndBlock_item:
  "EndBlock_item mem_vault_env 150 100 [mem_active1, mem_active2] mem_retiring
      \<lparr>coin_Asset = BTCAsset, coin_Amount = 1000 * One\<rparr>
    = Inr (mem_item ''BTC:new2'' (400 * One))"
proof -
  have n: "EndBlock_nth 150 50 100 = 2"
    by (simp add: EndBlock_nth_def signed_divide_int_def)
  have a: "EndBlock_amt 2 (1000 * One) = Inr (400 * One)"
    by (simp add: EndBlock_amt_def MulUint64_def QuoUint64_def uint64_def One_def)
  show ?thesis
    by (simp add: EndBlock_item_def mem_EndBlock_receiver BTCAsset_chain n a mem_retiring_fields
        mem_vault_env_def mem_address_def mem_item_def)
qed

lemma mem_EndBlock:
  "EndBlock mem_vm mem_vault_env 150 (0, 1, 0) mem_constants mem_migration
    = (None, mem_migration\<lparr>st_txout := [mem_item ''BTC:new2'' (400 * One)]\<rparr>)"
proof -
  have q: "st_txout mem_migration = []"
    by (simp add: mem_migration_def mem_empty_def)
  show ?thesis
    by (simp add: EndBlock_def genesisBlockHeight_def mem_constants_def
        mem_GetAsgardVaultsByStatus mem_GetTxOutStore
        mem_HasFunds mem_retiring_fields mem_EndBlock_item mem_txOutStore_def
        signed_modulo_int_def q)
qed

text \<open>
  C8. Let \<open>EndBlock\<close> run at a height other than the genesis height in a state \<open>s\<close>
  where the keeper returns the retiring asgard vaults \<open>pre @ vault # post\<close> and the
  active asgard vaults \<open>active\<close> (not empty), and let the vaults \<open>pre\<close> be processed
  without error, leaving the state \<open>s0\<close>. If \<open>vault\<close> has funds and its migration is
  due, then \<open>EndBlock\<close> returns without error in the state \<open>s'\<close> exactly when there is
  a chain of states from \<open>s0\<close>, one step for each coin of the vault in order, such that
  the step of a coin is a successful call of \<open>TryAddTxOutItem\<close> with an item whose
  destination is the address, on the chain of the coin, of the key of an active asgard
  vault \<open>active ! q\<close> that holds no more of the coin's asset than any active asgard
  vault (and is the first such vault of the list), whose vault key is the key of the
  retiring vault and whose memo is \<open>migrate\<close>; and the vaults \<open>post\<close> are then processed
  from the last state of the chain without error, ending in \<open>s'\<close>.
\<close>

theorem EndBlock_migration_receiver:
  assumes height: "height \<noteq> genesisBlockHeight"
    and retiring: "GetAsgardVaultsByStatus (vm_k vm) s RetiringVault = Inr (pre @ vault # post)"
    and active: "GetAsgardVaultsByStatus (vm_k vm) s ActiveVault = Inr active"
    and nonempty: "active \<noteq> []"
    and store: "vm_versionedTxOutStore vm (vm_k vm) version = Inr txOutStore"
    and const: "constAccessor FundMigrationInterval = migrateInterval"
    and interval: "migrateInterval \<noteq> 0"
    and earlier: "EndBlock_vaults vm env txOutStore height migrateInterval active pre s = (None, s0)"
    and funds: "HasFunds vault"
    and due: "(height - vault_StatusSince vault) smod migrateInterval = 0"
  shows
    "EndBlock vm env height version constAccessor s = (None, s') \<longleftrightarrow>
       (\<exists>sts. length sts = Suc (length (vault_Coins vault)) \<and> sts ! 0 = s0
          \<and> (\<forall>j < length (vault_Coins vault). \<exists>q addr amt ok.
                q < length active
                \<and> (\<forall>u \<in> set active.
                      coin_Amount (GetCoin (active ! q) (coin_Asset (vault_Coins vault ! j)))
                        \<le> coin_Amount (GetCoin u (coin_Asset (vault_Coins vault ! j))))
                \<and> (\<forall>r < q.
                      coin_Amount (GetCoin (active ! q) (coin_Asset (vault_Coins vault ! j)))
                        < coin_Amount (GetCoin (active ! r) (coin_Asset (vault_Coins vault ! j))))
                \<and> GetAddress env (vault_PubKey (active ! q))
                      (asset_Chain (coin_Asset (vault_Coins vault ! j))) = Inr addr
                \<and> EndBlock_amt (EndBlock_nth height (vault_StatusSince vault) migrateInterval)
                      (coin_Amount (vault_Coins vault ! j)) = Inr amt
                \<and> TryAddTxOutItem txOutStore (sts ! j)
                     \<lparr>toi_Chain = asset_Chain (coin_Asset (vault_Coins vault ! j)),
                      toi_InHash = BlankTxID env,
                      toi_ToAddress = addr,
                      toi_VaultPubKey = vault_PubKey vault,
                      toi_Coin =
                        \<lparr>coin_Asset = coin_Asset (vault_Coins vault ! j), coin_Amount = amt\<rparr>,
                      toi_Memo = ''migrate''\<rparr> = Inr (ok, sts ! Suc j))
          \<and> EndBlock_vaults vm env txOutStore height migrateInterval active post
               (sts ! length (vault_Coins vault)) = (None, s'))"
  unfolding EndBlock_success_iff[where pre = pre and vault = vault and post = post and vm = vm
      and s = s and active = active and height = height and version = version
      and txOutStore = txOutStore and constAccessor = constAccessor
      and migrateInterval = migrateInterval and env = env and ?s0.0 = s0 and s' = s',
      OF height retiring active nonempty store const interval earlier funds due]
    EndBlock_step_receiver[OF nonempty]
  by (rule refl)

theorem EndBlock_migration_receiver_witness:
  "(250::int) \<noteq> genesisBlockHeight
   \<and> GetAsgardVaultsByStatus (vm_k mem_vm) mem_migration RetiringVault
       = Inr ([] @ mem_retiring # [])
   \<and> GetAsgardVaultsByStatus (vm_k mem_vm) mem_migration ActiveVault
       = Inr [mem_active1, mem_active2]
   \<and> [mem_active1, mem_active2] \<noteq> []
   \<and> vm_versionedTxOutStore mem_vm (vm_k mem_vm) (0, 1, 0) = Inr mem_txOutStore
   \<and> mem_constants FundMigrationInterval = 100
   \<and> (100::int) \<noteq> 0
   \<and> EndBlock_vaults mem_vm mem_vault_env mem_txOutStore 250 100 [mem_active1, mem_active2]
         [] mem_migration = (None, mem_migration)
   \<and> HasFunds mem_retiring
   \<and> (250 - vault_StatusSince mem_retiring) smod 100 = 0
   \<and> vault_Coins mem_retiring = [\<lparr>coin_Asset = BTCAsset, coin_Amount = 1000 * One\<rparr>]
   \<and> coin_Amount (GetCoin ([mem_active1, mem_active2] ! 1) BTCAsset)
        < coin_Amount (GetCoin ([mem_active1, mem_active2] ! 0) BTCAsset)
   \<and> GetAddress mem_vault_env (vault_PubKey ([mem_active1, mem_active2] ! 1)) ''BTC''
        = Inr ''BTC:new2''
   \<and> EndBlock mem_vm mem_vault_env 250 (0, 1, 0) mem_constants mem_migration
       = (None, mem_migration\<lparr>st_txout := [mem_item ''BTC:new2'' (600 * One)]\<rparr>)"
proof -
  let ?s' = "mem_migration\<lparr>st_txout := [mem_item ''BTC:new2'' (600 * One)]\<rparr>"
  let ?active = "[mem_active1, mem_active2]"
  let ?x = "\<lparr>coin_Asset = BTCAsset, coin_Amount = 1000 * One\<rparr>"
  have h: "(250::int) \<noteq> genesisBlockHeight" by (simp add: genesisBlockHeight_def)
  have r: "GetAsgardVaultsByStatus (vm_k mem_vm) mem_migration RetiringVault
       = Inr ([] @ mem_retiring # [])"
    by (simp add: mem_GetAsgardVaultsByStatus)
  note a = mem_GetAsgardVaultsByStatus(2)
  have ne: "?active \<noteq> []" by simp
  note t = mem_GetTxOutStore[of "(0, 1, 0)"]
  have cst: "mem_constants FundMigrationInterval = 100" by (simp add: mem_constants_def)
  have i: "(100::int) \<noteq> 0" by simp
  have e: "EndBlock_vaults mem_vm mem_vault_env mem_txOutStore 250 100
      ?active [] mem_migration = (None, mem_migration)"
    by simp
  have due: "(250 - vault_StatusSince mem_retiring) smod 100 = 0"
    by (simp add: mem_retiring_fields signed_modulo_int_def)
  note c = mem_retiring_fields(1)
  have q: "(1::nat) < length ?active" by simp
  have lt: "coin_Amount (GetCoin (?active ! 1) BTCAsset)
        < coin_Amount (GetCoin (?active ! 0) BTCAsset)"
    by (simp add: mem_GetCoin One_def)
  have least: "\<forall>u \<in> set ?active.
      coin_Amount (GetCoin (?active ! 1) (coin_Asset ?x)) \<le> coin_Amount (GetCoin u (coin_Asset ?x))"
    by (simp add: mem_GetCoin One_def)
  have first: "\<forall>r < (1::nat).
      coin_Amount (GetCoin (?active ! 1) (coin_Asset ?x))
        < coin_Amount (GetCoin (?active ! r) (coin_Asset ?x))"
    by (simp add: mem_GetCoin One_def)
  have g0: "GetAddress mem_vault_env (vault_PubKey (?active ! 1)) ''BTC'' = Inr ''BTC:new2''"
    by (simp add: mem_vault_env_def mem_address_def mem_active2_def mem_vault_def NewVault_def)
  then have g: "GetAddress mem_vault_env (vault_PubKey (?active ! 1))
      (asset_Chain (coin_Asset ?x)) = Inr ''BTC:new2''"
    by (simp add: BTCAsset_chain)
  have amt: "EndBlock_amt (EndBlock_nth 250 (vault_StatusSince mem_retiring) 100)
      (coin_Amount ?x) = Inr (600 * One)"
    by (simp add: EndBlock_nth_def mem_retiring_fields signed_divide_int_def
        EndBlock_amt_def MulUint64_def QuoUint64_def uint64_def One_def)
  have add: "TryAddTxOutItem mem_txOutStore mem_migration
      \<lparr>toi_Chain = asset_Chain (coin_Asset ?x), toi_InHash = BlankTxID mem_vault_env,
       toi_ToAddress = ''BTC:new2'', toi_VaultPubKey = vault_PubKey mem_retiring,
       toi_Coin = \<lparr>coin_Asset = coin_Asset ?x, coin_Amount = 600 * One\<rparr>,
       toi_Memo = ''migrate''\<rparr>
    = Inr (True, ?s')"
    using mem_TryAddTxOutItem[of "600 * One"] by simp
  have rest: "EndBlock_vaults mem_vm mem_vault_env mem_txOutStore 250 100 ?active [] ?s'
      = (None, ?s')"
    by simp
  let ?R = "\<lambda>c x y. \<exists>q addr amt ok.
      q < length ?active
      \<and> (\<forall>u \<in> set ?active.
            coin_Amount (GetCoin (?active ! q) (coin_Asset c))
              \<le> coin_Amount (GetCoin u (coin_Asset c)))
      \<and> (\<forall>r < q.
            coin_Amount (GetCoin (?active ! q) (coin_Asset c))
              < coin_Amount (GetCoin (?active ! r) (coin_Asset c)))
      \<and> GetAddress mem_vault_env (vault_PubKey (?active ! q)) (asset_Chain (coin_Asset c))
            = Inr addr
      \<and> EndBlock_amt (EndBlock_nth 250 (vault_StatusSince mem_retiring) 100) (coin_Amount c)
            = Inr amt
      \<and> TryAddTxOutItem mem_txOutStore x
           \<lparr>toi_Chain = asset_Chain (coin_Asset c), toi_InHash = BlankTxID mem_vault_env,
            toi_ToAddress = addr, toi_VaultPubKey = vault_PubKey mem_retiring,
            toi_Coin = \<lparr>coin_Asset = coin_Asset c, coin_Amount = amt\<rparr>,
            toi_Memo = ''migrate''\<rparr> = Inr (ok, y)"
  let ?B = "\<lambda>y. EndBlock_vaults mem_vm mem_vault_env mem_txOutStore 250 100 ?active [] y
      = (None, ?s')"
  from q least first g amt add have step: "?R ?x mem_migration ?s'" by blast
  with rest have "\<exists>s1. ?R ?x mem_migration s1 \<and> ?B s1" by blast
  then have rhs: "\<exists>sts. length sts = Suc (length [?x]) \<and> sts ! 0 = mem_migration
      \<and> (\<forall>j < length [?x]. ?R ([?x] ! j) (sts ! j) (sts ! Suc j))
      \<and> ?B (sts ! length [?x])"
    by (rule chain_of_singleton[of ?x mem_migration ?R ?B, THEN iffD2])
  note th = EndBlock_migration_receiver[where pre = "[]" and vault = mem_retiring
      and post = "[]" and vm = mem_vm and s = mem_migration and active = ?active
      and height = 250 and version = "(0, 1, 0)" and txOutStore = mem_txOutStore
      and constAccessor = mem_constants and migrateInterval = 100 and env = mem_vault_env
      and ?s0.0 = mem_migration and s' = ?s',
      OF h r a ne t cst i e mem_HasFunds due]
  from th[unfolded c, THEN iffD2, OF rhs]
  have run: "EndBlock mem_vm mem_vault_env 250 (0, 1, 0) mem_constants mem_migration
       = (None, ?s')" .
  from h r a ne t cst i e mem_HasFunds due c lt g0 run show ?thesis by blast
qed

text \<open>
  C2, as amended. Let \<open>EndBlock\<close> run at a height other than the genesis height in a
  state \<open>s\<close> where the keeper returns the retiring asgard vaults \<open>pre @ vault # post\<close>
  and the active asgard vaults \<open>active\<close> (not empty), and let the vaults \<open>pre\<close> be
  processed without error, leaving the state \<open>s0\<close>. If \<open>vault\<close> has funds, the height
  is a positive multiple \<open>k\<close> of the migration interval past the height at which the
  vault took its status, and four times each coin of the vault fits 256 bits, then
  \<open>EndBlock\<close> returns without error in the state \<open>s'\<close> exactly when there is a chain of
  states from \<open>s0\<close>, one step for each coin of the vault in order, such that the step of
  a coin is a successful call of \<open>TryAddTxOutItem\<close> with the migration item of the coin
  to the receiver, of amount \<open>coin \<cdot> round / 5\<close> when the round
  \<open>1 + (height - statusSince) / interval\<close> is below 5 and of the whole coin otherwise;
  and the vaults \<open>post\<close> are then processed from the last state of the chain without
  error, ending in \<open>s'\<close>. For a vault that holds 1000 BTC and an interval of 100, the
  single call carries 400 BTC at \<open>H + 100\<close>, 600 BTC at \<open>H + 200\<close>, 800 BTC at
  \<open>H + 300\<close>, and 1000 BTC at \<open>H + 400\<close>, at \<open>H + 500\<close> and at every later multiple.
\<close>

theorem EndBlock_migration_rounds:
  assumes height: "height \<noteq> genesisBlockHeight"
    and retiring: "GetAsgardVaultsByStatus (vm_k vm) s RetiringVault = Inr (pre @ vault # post)"
    and active: "GetAsgardVaultsByStatus (vm_k vm) s ActiveVault = Inr active"
    and nonempty: "active \<noteq> []"
    and store: "vm_versionedTxOutStore vm (vm_k vm) version = Inr txOutStore"
    and const: "constAccessor FundMigrationInterval = migrateInterval"
    and interval: "0 < migrateInterval"
    and earlier: "EndBlock_vaults vm env txOutStore height migrateInterval active pre s = (None, s0)"
    and funds: "HasFunds vault"
    and multiple: "0 < k"
    and tick: "height - vault_StatusSince vault = k * migrateInterval"
    and fits: "\<forall>c \<in> set (vault_Coins vault). 4 * coin_Amount c < 2 ^ 256"
  shows
    "(EndBlock vm env height version constAccessor s = (None, s') \<longleftrightarrow>
       (\<exists>sts. length sts = Suc (length (vault_Coins vault)) \<and> sts ! 0 = s0
          \<and> (\<forall>j < length (vault_Coins vault). \<exists>addr ok.
                GetAddress env
                    (snd (EndBlock_receiver active (coin_Asset (vault_Coins vault ! j))))
                    (asset_Chain (coin_Asset (vault_Coins vault ! j))) = Inr addr
                \<and> TryAddTxOutItem txOutStore (sts ! j)
                     \<lparr>toi_Chain = asset_Chain (coin_Asset (vault_Coins vault ! j)),
                      toi_InHash = BlankTxID env,
                      toi_ToAddress = addr,
                      toi_VaultPubKey = vault_PubKey vault,
                      toi_Coin =
                        \<lparr>coin_Asset = coin_Asset (vault_Coins vault ! j),
                         coin_Amount =
                           (if 1 + (height - vault_StatusSince vault) div migrateInterval < 5
                            then coin_Amount (vault_Coins vault ! j)
                                   * nat (1 + (height - vault_StatusSince vault)
                                                div migrateInterval) div 5
                            else coin_Amount (vault_Coins vault ! j))\<rparr>,
                      toi_Memo = ''migrate''\<rparr> = Inr (ok, sts ! Suc j))
          \<and> EndBlock_vaults vm env txOutStore height migrateInterval active post
               (sts ! length (vault_Coins vault)) = (None, s')))
     \<and> (vault_Coins vault = [\<lparr>coin_Asset = a, coin_Amount = 1000 * One\<rparr>]
          \<and> migrateInterval = 100 \<longrightarrow>
        (EndBlock vm env height version constAccessor s = (None, s') \<longleftrightarrow>
           (\<exists>s1. (\<exists>addr ok.
                GetAddress env (snd (EndBlock_receiver active a)) (asset_Chain a) = Inr addr
                \<and> TryAddTxOutItem txOutStore s0
                     \<lparr>toi_Chain = asset_Chain a,
                      toi_InHash = BlankTxID env,
                      toi_ToAddress = addr,
                      toi_VaultPubKey = vault_PubKey vault,
                      toi_Coin =
                        \<lparr>coin_Asset = a,
                         coin_Amount =
                           (if k = 1 then 400 * One else if k = 2 then 600 * One
                            else if k = 3 then 800 * One else 1000 * One)\<rparr>,
                      toi_Memo = ''migrate''\<rparr> = Inr (ok, s1))
              \<and> EndBlock_vaults vm env txOutStore height migrateInterval active post s1
                   = (None, s'))))"
proof -
  let ?coins = "vault_Coins vault"
  from interval have nz: "migrateInterval \<noteq> 0" by simp
  have due: "(height - vault_StatusSince vault) smod migrateInterval = 0"
    using smod_multiple(1)[OF interval multiple] tick by simp
  note success = EndBlock_success_iff[where pre = pre and vault = vault and post = post and vm = vm
      and s = s and active = active and height = height and version = version
      and txOutStore = txOutStore and constAccessor = constAccessor
      and migrateInterval = migrateInterval and env = env and ?s0.0 = s0 and s' = s',
      OF height retiring active nonempty store const nz earlier funds due]
  have step: "(\<exists>toi ok.
        EndBlock_item env height migrateInterval active vault (?coins ! j) = Inr toi
        \<and> TryAddTxOutItem txOutStore (sts ! j) toi = Inr (ok, sts ! Suc j)) \<longleftrightarrow>
      (\<exists>addr ok.
         GetAddress env (snd (EndBlock_receiver active (coin_Asset (?coins ! j))))
             (asset_Chain (coin_Asset (?coins ! j))) = Inr addr
         \<and> TryAddTxOutItem txOutStore (sts ! j)
              \<lparr>toi_Chain = asset_Chain (coin_Asset (?coins ! j)),
               toi_InHash = BlankTxID env,
               toi_ToAddress = addr,
               toi_VaultPubKey = vault_PubKey vault,
               toi_Coin =
                 \<lparr>coin_Asset = coin_Asset (?coins ! j),
                  coin_Amount =
                    (if 1 + (height - vault_StatusSince vault) div migrateInterval < 5
                     then coin_Amount (?coins ! j)
                            * nat (1 + (height - vault_StatusSince vault)
                                         div migrateInterval) div 5
                     else coin_Amount (?coins ! j))\<rparr>,
               toi_Memo = ''migrate''\<rparr> = Inr (ok, sts ! Suc j))"
    if "j < length ?coins" for j and sts :: "'a list"
  proof -
    from that fits have "4 * coin_Amount (?coins ! j) < 2 ^ 256" by simp
    from EndBlock_step_amount[OF interval multiple tick this] show ?thesis .
  qed
  have general: "EndBlock vm env height version constAccessor s = (None, s') \<longleftrightarrow>
       (\<exists>sts. length sts = Suc (length ?coins) \<and> sts ! 0 = s0
          \<and> (\<forall>j < length ?coins. \<exists>addr ok.
                GetAddress env (snd (EndBlock_receiver active (coin_Asset (?coins ! j))))
                    (asset_Chain (coin_Asset (?coins ! j))) = Inr addr
                \<and> TryAddTxOutItem txOutStore (sts ! j)
                     \<lparr>toi_Chain = asset_Chain (coin_Asset (?coins ! j)),
                      toi_InHash = BlankTxID env,
                      toi_ToAddress = addr,
                      toi_VaultPubKey = vault_PubKey vault,
                      toi_Coin =
                        \<lparr>coin_Asset = coin_Asset (?coins ! j),
                         coin_Amount =
                           (if 1 + (height - vault_StatusSince vault) div migrateInterval < 5
                            then coin_Amount (?coins ! j)
                                   * nat (1 + (height - vault_StatusSince vault)
                                                div migrateInterval) div 5
                            else coin_Amount (?coins ! j))\<rparr>,
                      toi_Memo = ''migrate''\<rparr> = Inr (ok, sts ! Suc j))
          \<and> EndBlock_vaults vm env txOutStore height migrateInterval active post
               (sts ! length ?coins) = (None, s'))"
    unfolding success using step by (simp cong: conj_cong)
  have scenario: "EndBlock vm env height version constAccessor s = (None, s') \<longleftrightarrow>
           (\<exists>s1. (\<exists>addr ok.
                GetAddress env (snd (EndBlock_receiver active a)) (asset_Chain a) = Inr addr
                \<and> TryAddTxOutItem txOutStore s0
                     \<lparr>toi_Chain = asset_Chain a,
                      toi_InHash = BlankTxID env,
                      toi_ToAddress = addr,
                      toi_VaultPubKey = vault_PubKey vault,
                      toi_Coin =
                        \<lparr>coin_Asset = a,
                         coin_Amount =
                           (if k = 1 then 400 * One else if k = 2 then 600 * One
                            else if k = 3 then 800 * One else 1000 * One)\<rparr>,
                      toi_Memo = ''migrate''\<rparr> = Inr (ok, s1))
              \<and> EndBlock_vaults vm env txOutStore height migrateInterval active post s1
                   = (None, s'))"
    if c: "?coins = [\<lparr>coin_Asset = a, coin_Amount = 1000 * One\<rparr>]" and i: "migrateInterval = 100"
  proof -
    have d: "(height - vault_StatusSince vault) div migrateInterval = k"
      using interval tick by simp
    define amt where "amt = (if k = 1 then 400 * One else if k = 2 then 600 * One
                            else if k = 3 then 800 * One else 1000 * One)"
    have sch: "(if 1 + k < 5 then 1000 * One * nat (1 + k) div 5 else 1000 * One) = amt"
      unfolding amt_def by (rule schedule_1000[OF multiple])
    let ?R = "\<lambda>c x y. \<exists>addr ok.
                GetAddress env (snd (EndBlock_receiver active (coin_Asset c)))
                    (asset_Chain (coin_Asset c)) = Inr addr
                \<and> TryAddTxOutItem txOutStore x
                     \<lparr>toi_Chain = asset_Chain (coin_Asset c),
                      toi_InHash = BlankTxID env,
                      toi_ToAddress = addr,
                      toi_VaultPubKey = vault_PubKey vault,
                      toi_Coin =
                        \<lparr>coin_Asset = coin_Asset c,
                         coin_Amount =
                           (if 1 + k < 5 then coin_Amount c * nat (1 + k) div 5
                            else coin_Amount c)\<rparr>,
                      toi_Memo = ''migrate''\<rparr> = Inr (ok, y)"
    let ?B = "\<lambda>y. EndBlock_vaults vm env txOutStore height migrateInterval active post y
                   = (None, s')"
    let ?x = "\<lparr>coin_Asset = a, coin_Amount = 1000 * One\<rparr>"
    from general[unfolded c d]
    have "EndBlock vm env height version constAccessor s = (None, s') \<longleftrightarrow>
        (\<exists>sts. length sts = Suc (length [?x]) \<and> sts ! 0 = s0
          \<and> (\<forall>j < length [?x]. ?R ([?x] ! j) (sts ! j) (sts ! Suc j))
          \<and> ?B (sts ! length [?x]))" .
    also have "\<dots> \<longleftrightarrow> (\<exists>s1. ?R ?x s0 s1 \<and> ?B s1)"
      by (rule chain_of_singleton[of ?x s0 ?R ?B])
    finally have "EndBlock vm env height version constAccessor s = (None, s') \<longleftrightarrow>
           (\<exists>s1. (\<exists>addr ok.
                GetAddress env (snd (EndBlock_receiver active a)) (asset_Chain a) = Inr addr
                \<and> TryAddTxOutItem txOutStore s0
                     \<lparr>toi_Chain = asset_Chain a,
                      toi_InHash = BlankTxID env,
                      toi_ToAddress = addr,
                      toi_VaultPubKey = vault_PubKey vault,
                      toi_Coin = \<lparr>coin_Asset = a, coin_Amount = amt\<rparr>,
                      toi_Memo = ''migrate''\<rparr> = Inr (ok, s1))
              \<and> EndBlock_vaults vm env txOutStore height migrateInterval active post s1
                   = (None, s'))"
      unfolding Coin.select_convs sch .
    then show ?thesis unfolding amt_def .
  qed
  from general scenario show ?thesis by blast
qed

text \<open>
  The schedule as first stated (200 BTC at \<open>H + 100\<close>) does not hold: with \<open>H = 50\<close>,
  an interval of 100 and a retiring vault of 1000 BTC, \<open>EndBlock\<close> at height 150
  enqueues one item, of 400 BTC.
\<close>

theorem EndBlock_migration_counterexample:
  "txout_amounts (snd (EndBlock mem_vm mem_vault_env (50 + 100) (0, 1, 0) mem_constants mem_migration))
     = [400 * One]
   \<and> txout_amounts (snd (EndBlock mem_vm mem_vault_env (50 + 100) (0, 1, 0) mem_constants mem_migration))
     \<noteq> [200 * One]"
  using mem_EndBlock by (simp add: txout_amounts_def mem_item_def One_def)

theorem EndBlock_migration_rounds_witness:
  "(150::int) \<noteq> genesisBlockHeight
   \<and> GetAsgardVaultsByStatus (vm_k mem_vm) mem_migration RetiringVault
       = Inr ([] @ mem_retiring # [])
   \<and> GetAsgardVaultsByStatus (vm_k mem_vm) mem_migration ActiveVault
       = Inr [mem_active1, mem_active2]
   \<and> [mem_active1, mem_active2] \<noteq> []
   \<and> vm_versionedTxOutStore mem_vm (vm_k mem_vm) (0, 1, 0) = Inr mem_txOutStore
   \<and> mem_constants FundMigrationInterval = 100
   \<and> (0::int) < 100
   \<and> EndBlock_vaults mem_vm mem_vault_env mem_txOutStore 150 100 [mem_active1, mem_active2]
         [] mem_migration = (None, mem_migration)
   \<and> HasFunds mem_retiring
   \<and> (0::int) < 1
   \<and> 150 - vault_StatusSince mem_retiring = 1 * 100
   \<and> vault_Coins mem_retiring = [\<lparr>coin_Asset = BTCAsset, coin_Amount = 1000 * One\<rparr>]
   \<and> 4 * (1000 * One) < (2::nat) ^ 256
   \<and> EndBlock mem_vm mem_vault_env 150 (0, 1, 0) mem_constants mem_migration
       = (None, mem_migration\<lparr>st_txout := [mem_item ''BTC:new2'' (400 * One)]\<rparr>)"
proof -
  let ?s' = "mem_migration\<lparr>st_txout := [mem_item ''BTC:new2'' (400 * One)]\<rparr>"
  have h: "(150::int) \<noteq> genesisBlockHeight" by (simp add: genesisBlockHeight_def)
  have r: "GetAsgardVaultsByStatus (vm_k mem_vm) mem_migration RetiringVault
       = Inr ([] @ mem_retiring # [])"
    by (simp add: mem_GetAsgardVaultsByStatus)
  note a = mem_GetAsgardVaultsByStatus(2)
  have ne: "[mem_active1, mem_active2] \<noteq> []" by simp
  note t = mem_GetTxOutStore[of "(0, 1, 0)"]
  have cst: "mem_constants FundMigrationInterval = 100" by (simp add: mem_constants_def)
  have i: "(0::int) < 100" and k: "(0::int) < 1" by simp_all
  have e: "EndBlock_vaults mem_vm mem_vault_env mem_txOutStore 150 100
      [mem_active1, mem_active2] [] mem_migration = (None, mem_migration)"
    by simp
  have tick: "150 - vault_StatusSince mem_retiring = 1 * 100"
    by (simp add: mem_retiring_fields)
  note c = mem_retiring_fields(1)
  have b: "4 * (1000 * One) < (2::nat) ^ 256" by (simp add: One_def)
  then have fits: "\<forall>c \<in> set (vault_Coins mem_retiring). 4 * coin_Amount c < 2 ^ 256"
    by (simp add: c)
  have add: "TryAddTxOutItem mem_txOutStore mem_migration
      \<lparr>toi_Chain = asset_Chain BTCAsset, toi_InHash = BlankTxID mem_vault_env,
       toi_ToAddress = ''BTC:new2'', toi_VaultPubKey = vault_PubKey mem_retiring,
       toi_Coin =
         \<lparr>coin_Asset = BTCAsset,
          coin_Amount =
            (if (1::int) = 1 then 400 * One else if (1::int) = 2 then 600 * One
             else if (1::int) = 3 then 800 * One else 1000 * One)\<rparr>,
       toi_Memo = ''migrate''\<rparr>
    = Inr (True, ?s')"
    using mem_TryAddTxOutItem[of "400 * One"] by simp
  have rest: "EndBlock_vaults mem_vm mem_vault_env mem_txOutStore 150 100
      [mem_active1, mem_active2] [] ?s' = (None, ?s')"
    by simp
  from mem_GetAddress add rest have rhs:
    "\<exists>s1. (\<exists>addr ok.
        GetAddress mem_vault_env (snd (EndBlock_receiver [mem_active1, mem_active2] BTCAsset))
            (asset_Chain BTCAsset) = Inr addr
        \<and> TryAddTxOutItem mem_txOutStore mem_migration
             \<lparr>toi_Chain = asset_Chain BTCAsset, toi_InHash = BlankTxID mem_vault_env,
              toi_ToAddress = addr, toi_VaultPubKey = vault_PubKey mem_retiring,
              toi_Coin =
                \<lparr>coin_Asset = BTCAsset,
                 coin_Amount =
                   (if (1::int) = 1 then 400 * One else if (1::int) = 2 then 600 * One
                    else if (1::int) = 3 then 800 * One else 1000 * One)\<rparr>,
              toi_Memo = ''migrate''\<rparr> = Inr (ok, s1))
      \<and> EndBlock_vaults mem_vm mem_vault_env mem_txOutStore 150 100
          [mem_active1, mem_active2] [] s1 = (None, ?s')"
    by blast
  note th = EndBlock_migration_rounds[where pre = "[]" and vault = mem_retiring and post = "[]"
      and vm = mem_vm and s = mem_migration and active = "[mem_active1, mem_active2]"
      and height = 150 and version = "(0, 1, 0)" and txOutStore = mem_txOutStore
      and constAccessor = mem_constants and migrateInterval = 100 and env = mem_vault_env
      and ?s0.0 = mem_migration and k = 1 and s' = ?s' and a = BTCAsset,
      OF h r a ne t cst i e mem_HasFunds k tick fits]
  from th[THEN conjunct2, THEN mp, OF conjI[OF c refl], THEN iffD2, OF rhs]
  have run: "EndBlock mem_vm mem_vault_env 150 (0, 1, 0) mem_constants mem_migration
       = (None, ?s')" .
  from h r a ne t cst i e mem_HasFunds k tick c b run show ?thesis by blast
qed

section \<open>Properties of the yggdrasil handler\<close>

lemma handleYggdrasilReturn_slash_chain:
  "handleYggdrasilReturn_slash env k pk cs s = (None, s') \<longleftrightarrow>
    (\<exists>sts. length sts = Suc (length cs) \<and> sts ! 0 = s \<and> sts ! length cs = s'
       \<and> (\<forall>i < length cs.
             slashNodeAccount env k (sts ! i) pk (coin_Asset (cs ! i)) (coin_Amount (cs ! i))
               = Inr (sts ! Suc i)))"
proof (induction cs arbitrary: s)
  case Nil
  show ?case
  proof
    assume "handleYggdrasilReturn_slash env k pk [] s = (None, s')"
    then have "s' = s" by simp
    then show "\<exists>sts. length sts = Suc (length []) \<and> sts ! 0 = s \<and> sts ! length [] = s'
       \<and> (\<forall>i < length ([]::Coin list).
             slashNodeAccount env k (sts ! i) pk (coin_Asset ([] ! i)) (coin_Amount ([] ! i))
               = Inr (sts ! Suc i))"
      by (intro exI[of _ "[s]"]) simp
  next
    assume "\<exists>sts. length sts = Suc (length []) \<and> sts ! 0 = s \<and> sts ! length [] = s'
       \<and> (\<forall>i < length ([]::Coin list).
             slashNodeAccount env k (sts ! i) pk (coin_Asset ([] ! i)) (coin_Amount ([] ! i))
               = Inr (sts ! Suc i))"
    then show "handleYggdrasilReturn_slash env k pk [] s = (None, s')" by auto
  qed
next
  case (Cons c cs)
  show ?case
  proof
    assume run: "handleYggdrasilReturn_slash env k pk (c # cs) s = (None, s')"
    then obtain s1 where s1: "slashNodeAccount env k s pk (coin_Asset c) (coin_Amount c) = Inr s1"
      and rest: "handleYggdrasilReturn_slash env k pk cs s1 = (None, s')"
      by (auto split: sum.splits)
    from rest Cons.IH[of s1] obtain sts where sts: "length sts = Suc (length cs)"
      "sts ! 0 = s1" "sts ! length cs = s'"
      "\<forall>i < length cs.
         slashNodeAccount env k (sts ! i) pk (coin_Asset (cs ! i)) (coin_Amount (cs ! i))
           = Inr (sts ! Suc i)"
      by blast
    have "\<forall>i < length (c # cs).
         slashNodeAccount env k ((s # sts) ! i) pk (coin_Asset ((c # cs) ! i))
             (coin_Amount ((c # cs) ! i))
           = Inr ((s # sts) ! Suc i)"
    proof (intro allI impI)
      fix i assume "i < length (c # cs)"
      then show "slashNodeAccount env k ((s # sts) ! i) pk (coin_Asset ((c # cs) ! i))
             (coin_Amount ((c # cs) ! i)) = Inr ((s # sts) ! Suc i)"
        using s1 sts by (cases i) auto
    qed
    with sts show "\<exists>sts. length sts = Suc (length (c # cs)) \<and> sts ! 0 = s
       \<and> sts ! length (c # cs) = s'
       \<and> (\<forall>i < length (c # cs).
             slashNodeAccount env k (sts ! i) pk (coin_Asset ((c # cs) ! i))
                 (coin_Amount ((c # cs) ! i))
               = Inr (sts ! Suc i))"
      by (intro exI[of _ "s # sts"]) simp
  next
    assume "\<exists>sts. length sts = Suc (length (c # cs)) \<and> sts ! 0 = s
       \<and> sts ! length (c # cs) = s'
       \<and> (\<forall>i < length (c # cs).
             slashNodeAccount env k (sts ! i) pk (coin_Asset ((c # cs) ! i))
                 (coin_Amount ((c # cs) ! i))
               = Inr (sts ! Suc i))"
    then obtain sts where sts: "length sts = Suc (Suc (length cs))" "sts ! 0 = s"
      "sts ! Suc (length cs) = s'"
      and step: "\<forall>i < Suc (length cs).
             slashNodeAccount env k (sts ! i) pk (coin_Asset ((c # cs) ! i))
                 (coin_Amount ((c # cs) ! i))
               = Inr (sts ! Suc i)"
      by auto
    from sts(1) obtain x tl where tl: "sts = x # tl" "length tl = Suc (length cs)"
      by (cases sts) auto
    from step[rule_format, of 0] sts(2) tl
    have first: "slashNodeAccount env k s pk (coin_Asset c) (coin_Amount c) = Inr (tl ! 0)"
      by simp
    have "\<forall>i < length cs.
         slashNodeAccount env k (tl ! i) pk (coin_Asset (cs ! i)) (coin_Amount (cs ! i))
           = Inr (tl ! Suc i)"
    proof (intro allI impI)
      fix i assume "i < length cs"
      with step[rule_format, of "Suc i"] tl
      show "slashNodeAccount env k (tl ! i) pk (coin_Asset (cs ! i)) (coin_Amount (cs ! i))
           = Inr (tl ! Suc i)"
        by simp
    qed
    with tl sts(3) have "handleYggdrasilReturn_slash env k pk cs (tl ! 0) = (None, s')"
      using Cons.IH[of "tl ! 0"] by auto
    with first show "handleYggdrasilReturn_slash env k pk (c # cs) s = (None, s')"
      by simp
  qed
qed

text \<open>
  C7. A yggdrasil return observed on a yggdrasil vault. When the recipient is not an
  address of an active asgard vault, the node account of the message's key is slashed
  once for each coin of the transaction, in order, with the asset and the amount of
  that coin (each slash starts from the state the one before left), and the handler
  goes on from the last state, or stops with an internal error at the first slash
  that fails. When the recipient is an address of an active asgard vault, the handler
  goes on from the state it was given: nothing is slashed. Going on, an active node
  yields \<open>CodeOK\<close> with the state unchanged, whatever \<open>refundBond\<close> would do; only for
  a node that is not active is the bond refunded.
\<close>

theorem handleYggdrasilReturn_slash_and_refund:
  assumes ygg: "vault_Type vault = YggdrasilVault"
    and asg: "GetAsgardVaultsByStatus (h_keeper h) s ActiveVault = Inr asgardVaults"
  shows
    "(HasAddress venv asgardVaults (tx_Chain (msg_Tx msg)) (tx_ToAddress (msg_Tx msg)) = Inr False
        \<and> handleYggdrasilReturn_slash env (h_keeper h) (msg_PubKey msg) (tx_Coins (msg_Tx msg)) s
            = (None, s') \<longrightarrow>
        handleYggdrasilReturn h env venv height msg vault version s
          = handleYggdrasilReturn_bond h env msg version s'
        \<and> (\<exists>sts. length sts = Suc (length (tx_Coins (msg_Tx msg)))
              \<and> sts ! 0 = s \<and> sts ! length (tx_Coins (msg_Tx msg)) = s'
              \<and> (\<forall>i < length (tx_Coins (msg_Tx msg)).
                    slashNodeAccount env (h_keeper h) (sts ! i) (msg_PubKey msg)
                        (coin_Asset (tx_Coins (msg_Tx msg) ! i))
                        (coin_Amount (tx_Coins (msg_Tx msg) ! i))
                      = Inr (sts ! Suc i))))
     \<and> (HasAddress venv asgardVaults (tx_Chain (msg_Tx msg)) (tx_ToAddress (msg_Tx msg)) = Inr False
        \<and> handleYggdrasilReturn_slash env (h_keeper h) (msg_PubKey msg) (tx_Coins (msg_Tx msg)) s
            = (Some err, s') \<longrightarrow>
        handleYggdrasilReturn h env venv height msg vault version s
          = (ErrInternal ''fail to slash account'', s'))
     \<and> (HasAddress venv asgardVaults (tx_Chain (msg_Tx msg)) (tx_ToAddress (msg_Tx msg)) = Inr True
        \<longrightarrow>
        handleYggdrasilReturn h env venv height msg vault version s
          = handleYggdrasilReturn_bond h env msg version s)
     \<and> (GetNodeAccountByPubKey (h_keeper h) s1 (msg_PubKey msg) = Inr na
        \<and> na_Status na = NodeActive \<longrightarrow>
        handleYggdrasilReturn_bond h env msg version s1 = (CodeOK, s1))
     \<and> (GetNodeAccountByPubKey (h_keeper h) s1 (msg_PubKey msg) = Inr na
        \<and> na_Status na \<noteq> NodeActive
        \<and> h_txOutStore h (h_keeper h) version = Inr txOutStore \<longrightarrow>
        handleYggdrasilReturn_bond h env msg version s1 =
          (case refundBond env s1 (msg_Tx msg) na (h_keeper h) txOutStore of
             Inl e \<Rightarrow> (ErrInternalOf e, s1)
           | Inr s2 \<Rightarrow> (CodeOK, s2)))"
proof -
  have a: "HasAddress venv asgardVaults (tx_Chain (msg_Tx msg)) (tx_ToAddress (msg_Tx msg)) = Inr False
        \<and> handleYggdrasilReturn_slash env (h_keeper h) (msg_PubKey msg) (tx_Coins (msg_Tx msg)) s
            = (None, s') \<longrightarrow>
        handleYggdrasilReturn h env venv height msg vault version s
          = handleYggdrasilReturn_bond h env msg version s'
        \<and> (\<exists>sts. length sts = Suc (length (tx_Coins (msg_Tx msg)))
              \<and> sts ! 0 = s \<and> sts ! length (tx_Coins (msg_Tx msg)) = s'
              \<and> (\<forall>i < length (tx_Coins (msg_Tx msg)).
                    slashNodeAccount env (h_keeper h) (sts ! i) (msg_PubKey msg)
                        (coin_Asset (tx_Coins (msg_Tx msg) ! i))
                        (coin_Amount (tx_Coins (msg_Tx msg) ! i))
                      = Inr (sts ! Suc i)))"
  proof (intro impI, elim conjE)
    assume na: "HasAddress venv asgardVaults (tx_Chain (msg_Tx msg)) (tx_ToAddress (msg_Tx msg))
        = Inr False"
      and run: "handleYggdrasilReturn_slash env (h_keeper h) (msg_PubKey msg)
          (tx_Coins (msg_Tx msg)) s = (None, s')"
    have "handleYggdrasilReturn h env venv height msg vault version s
          = handleYggdrasilReturn_bond h env msg version s'"
      using ygg asg na run by (simp add: handleYggdrasilReturn_def)
    moreover note handleYggdrasilReturn_slash_chain[THEN iffD1, OF run]
    ultimately show "handleYggdrasilReturn h env venv height msg vault version s
          = handleYggdrasilReturn_bond h env msg version s'
        \<and> (\<exists>sts. length sts = Suc (length (tx_Coins (msg_Tx msg)))
              \<and> sts ! 0 = s \<and> sts ! length (tx_Coins (msg_Tx msg)) = s'
              \<and> (\<forall>i < length (tx_Coins (msg_Tx msg)).
                    slashNodeAccount env (h_keeper h) (sts ! i) (msg_PubKey msg)
                        (coin_Asset (tx_Coins (msg_Tx msg) ! i))
                        (coin_Amount (tx_Coins (msg_Tx msg) ! i))
                      = Inr (sts ! Suc i)))"
      by blast
  qed
  have b: "HasAddress venv asgardVaults (tx_Chain (msg_Tx msg)) (tx_ToAddress (msg_Tx msg)) = Inr False
        \<and> handleYggdrasilReturn_slash env (h_keeper h) (msg_PubKey msg) (tx_Coins (msg_Tx msg)) s
            = (Some err, s') \<longrightarrow>
        handleYggdrasilReturn h env venv height msg vault version s
          = (ErrInternal ''fail to slash account'', s')"
    using ygg asg by (simp add: handleYggdrasilReturn_def)
  have c: "HasAddress venv asgardVaults (tx_Chain (msg_Tx msg)) (tx_ToAddress (msg_Tx msg)) = Inr True
        \<longrightarrow>
        handleYggdrasilReturn h env venv height msg vault version s
          = handleYggdrasilReturn_bond h env msg version s"
    using ygg asg by (simp add: handleYggdrasilReturn_def)
  have d: "GetNodeAccountByPubKey (h_keeper h) s1 (msg_PubKey msg) = Inr na
        \<and> na_Status na = NodeActive \<longrightarrow>
        handleYggdrasilReturn_bond h env msg version s1 = (CodeOK, s1)"
    by (simp add: handleYggdrasilReturn_bond_def)
  have e: "GetNodeAccountByPubKey (h_keeper h) s1 (msg_PubKey msg) = Inr na
        \<and> na_Status na \<noteq> NodeActive
        \<and> h_txOutStore h (h_keeper h) version = Inr txOutStore \<longrightarrow>
        handleYggdrasilReturn_bond h env msg version s1 =
          (case refundBond env s1 (msg_Tx msg) na (h_keeper h) txOutStore of
             Inl e \<Rightarrow> (ErrInternalOf e, s1)
           | Inr s2 \<Rightarrow> (CodeOK, s2))"
    by (simp add: handleYggdrasilReturn_bond_def)
  from a b c d e show ?thesis by blast
qed

lemma mem_ygg_asgards:
  "GetAsgardVaultsByStatus (h_keeper mem_handler) (mem_ygg_state st b) ActiveVault
     = Inr [mem_vault ''new1'' AsgardVault ActiveVault 10 []]"
  by (simp add: mem_handler_def mem_keeper_def mem_ygg_state_def mem_empty_def mem_vault_def
      NewVault_def)

lemma mem_ygg_HasAddress:
  "HasAddress mem_vault_env [mem_vault ''new1'' AsgardVault ActiveVault 10 []]
      (tx_Chain (msg_Tx (mem_ygg_msg ''BNB:elsewhere'')))
      (tx_ToAddress (msg_Tx (mem_ygg_msg ''BNB:elsewhere''))) = Inr False"
  "HasAddress mem_vault_env [mem_vault ''new1'' AsgardVault ActiveVault 10 []]
      (tx_Chain (msg_Tx (mem_ygg_msg ''BNB:new1'')))
      (tx_ToAddress (msg_Tx (mem_ygg_msg ''BNB:new1''))) = Inr True"
  by (simp_all add: mem_vault_env_def mem_ygg_msg_def mem_address_def mem_vault_def NewVault_def)

lemma mem_ygg_slash:
  "handleYggdrasilReturn_slash mem_ygg_env (h_keeper mem_handler) (msg_PubKey (mem_ygg_msg a))
      (tx_Coins (msg_Tx (mem_ygg_msg a))) (mem_ygg_state st 1000)
    = (None, mem_ygg_state st 850)"
  by (simp add: mem_ygg_msg_def mem_ygg_coins_def mem_ygg_env_def mem_ygg_state_def
      mem_empty_def mem_node_def)

lemma mem_ygg_node:
  "GetNodeAccountByPubKey (h_keeper mem_handler) (mem_ygg_state st b) (msg_PubKey (mem_ygg_msg a))
    = Inr (mem_node ''node1'' st b)"
  by (simp add: mem_handler_def mem_keeper_def mem_ygg_state_def mem_empty_def mem_node_def
      mem_ygg_msg_def)

lemma mem_ygg_store:
  "h_txOutStore mem_handler (h_keeper mem_handler) (0, 1, 0) = Inr mem_txOutStore"
  unfolding mem_handler_def mem_versionedTxOutStore_def by simp

lemma mem_ygg_refund:
  "refundBond mem_ygg_env (mem_ygg_state NodeStandby 850) (msg_Tx (mem_ygg_msg a))
      (mem_node ''node1'' NodeStandby 850) (h_keeper mem_handler) mem_txOutStore
    = Inr ((mem_ygg_state NodeStandby 0)\<lparr>st_txout := [mem_refund_item 850]\<rparr>)"
  by (simp add: mem_ygg_env_def mem_ygg_state_def mem_empty_def mem_node_def mem_ygg_msg_def
      mem_refund_item_def)

theorem handleYggdrasilReturn_slash_and_refund_witness:
  "vault_Type mem_ygg_vault = YggdrasilVault
   \<and> handleYggdrasilReturn mem_handler mem_ygg_env mem_vault_env 20
        (mem_ygg_msg ''BNB:elsewhere'') mem_ygg_vault (0, 1, 0) (mem_ygg_state NodeActive 1000)
       = (CodeOK, mem_ygg_state NodeActive 850)
   \<and> handleYggdrasilReturn mem_handler mem_ygg_env mem_vault_env 20
        (mem_ygg_msg ''BNB:new1'') mem_ygg_vault (0, 1, 0) (mem_ygg_state NodeActive 1000)
       = (CodeOK, mem_ygg_state NodeActive 1000)
   \<and> handleYggdrasilReturn mem_handler mem_ygg_env mem_vault_env 20
        (mem_ygg_msg ''BNB:elsewhere'') mem_ygg_vault (0, 1, 0) (mem_ygg_state NodeStandby 1000)
       = (CodeOK, (mem_ygg_state NodeStandby 0)\<lparr>st_txout := [mem_refund_item 850]\<rparr>)"
proof -
  have ygg: "vault_Type mem_ygg_vault = YggdrasilVault"
    by (simp add: mem_ygg_vault_def mem_vault_def NewVault_def)
  have act: "na_Status (mem_node ''node1'' NodeActive b) = NodeActive" for b
    by (simp add: mem_node_def)
  have sby: "na_Status (mem_node ''node1'' NodeStandby b) \<noteq> NodeActive" for b
    by (simp add: mem_node_def)
  note t1 = handleYggdrasilReturn_slash_and_refund[OF ygg mem_ygg_asgards[of NodeActive 1000],
      where venv = mem_vault_env and msg = "mem_ygg_msg ''BNB:elsewhere''" and env = mem_ygg_env
        and s' = "mem_ygg_state NodeActive 850" and ?s1.0 = "mem_ygg_state NodeActive 850"
        and na = "mem_node ''node1'' NodeActive 850" and version = "(0, 1, 0)" and height = 20]
  from t1 mem_ygg_HasAddress(1) mem_ygg_slash mem_ygg_node act
  have c1: "handleYggdrasilReturn mem_handler mem_ygg_env mem_vault_env 20
        (mem_ygg_msg ''BNB:elsewhere'') mem_ygg_vault (0, 1, 0) (mem_ygg_state NodeActive 1000)
       = (CodeOK, mem_ygg_state NodeActive 850)"
    by metis
  note t2 = handleYggdrasilReturn_slash_and_refund[OF ygg mem_ygg_asgards[of NodeActive 1000],
      where venv = mem_vault_env and msg = "mem_ygg_msg ''BNB:new1''" and env = mem_ygg_env
        and ?s1.0 = "mem_ygg_state NodeActive 1000"
        and na = "mem_node ''node1'' NodeActive 1000" and version = "(0, 1, 0)" and height = 20]
  from t2 mem_ygg_HasAddress(2) mem_ygg_node act
  have c2: "handleYggdrasilReturn mem_handler mem_ygg_env mem_vault_env 20
        (mem_ygg_msg ''BNB:new1'') mem_ygg_vault (0, 1, 0) (mem_ygg_state NodeActive 1000)
       = (CodeOK, mem_ygg_state NodeActive 1000)"
    by metis
  note t3 = handleYggdrasilReturn_slash_and_refund[OF ygg mem_ygg_asgards[of NodeStandby 1000],
      where venv = mem_vault_env and msg = "mem_ygg_msg ''BNB:elsewhere''" and env = mem_ygg_env
        and s' = "mem_ygg_state NodeStandby 850" and ?s1.0 = "mem_ygg_state NodeStandby 850"
        and na = "mem_node ''node1'' NodeStandby 850" and version = "(0, 1, 0)" and height = 20
        and txOutStore = mem_txOutStore]
  from t3 mem_ygg_HasAddress(1) mem_ygg_slash mem_ygg_node sby mem_ygg_store
  have "handleYggdrasilReturn mem_handler mem_ygg_env mem_vault_env 20
        (mem_ygg_msg ''BNB:elsewhere'') mem_ygg_vault (0, 1, 0) (mem_ygg_state NodeStandby 1000)
       = (case refundBond mem_ygg_env (mem_ygg_state NodeStandby 850)
                 (msg_Tx (mem_ygg_msg ''BNB:elsewhere'')) (mem_node ''node1'' NodeStandby 850)
                 (h_keeper mem_handler) mem_txOutStore of
             Inl e \<Rightarrow> (ErrInternalOf e, mem_ygg_state NodeStandby 850)
           | Inr s2 \<Rightarrow> (CodeOK, s2))"
    by metis
  then have c3: "handleYggdrasilReturn mem_handler mem_ygg_env mem_vault_env 20
        (mem_ygg_msg ''BNB:elsewhere'') mem_ygg_vault (0, 1, 0) (mem_ygg_state NodeStandby 1000)
       = (CodeOK, (mem_ygg_state NodeStandby 0)\<lparr>st_txout := [mem_refund_item 850]\<rparr>)"
    by (simp only: mem_ygg_refund sum.case)
  from ygg c1 c2 c3 show ?thesis by blast
qed

section \<open>Properties of the pool-unit issuance\<close>

text \<open>
  C4. A first stake into an empty pool (no units, no balances) with the RUNE side zero
  fails with the message \<open>total RUNE in the pool is zero\<close>; with the asset side zero
  it fails with \<open>total asset in the pool is zero\<close>; in both cases the pool units and
  the staker units returned are zero.
\<close>

theorem calculatePoolUnits_one_sided_first_stake:
  "(0 < stakeAsset \<longrightarrow>
      calculatePoolUnits 0 0 0 0 stakeAsset = (0, 0, Some ErrTotalRuneZero))
   \<and> (0 < stakeRune \<longrightarrow>
        calculatePoolUnits 0 0 0 stakeRune 0 = (0, 0, Some ErrTotalAssetZero))
   \<and> error_message ErrTotalRuneZero = Some ''total RUNE in the pool is zero''
   \<and> error_message ErrTotalAssetZero = Some ''total asset in the pool is zero''"
  by (simp add: calculatePoolUnits_def error_message_def)

theorem calculatePoolUnits_one_sided_first_stake_witness:
  "(0::nat) < 100 * One
   \<and> calculatePoolUnits 0 0 0 0 (100 * One) = (0, 0, Some ErrTotalRuneZero)
   \<and> calculatePoolUnits 0 0 0 (100 * One) 0 = (0, 0, Some ErrTotalAssetZero)
   \<and> error_message ErrTotalRuneZero = Some ''total RUNE in the pool is zero''
   \<and> error_message ErrTotalAssetZero = Some ''total asset in the pool is zero''"
proof -
  have p: "(0::nat) < 100 * One" by (simp add: One_def)
  from calculatePoolUnits_one_sided_first_stake[of "100 * One" "100 * One"] p
  show ?thesis by blast
qed

text \<open>
  The values of the issuance rule at the two stakes of the test table: the first
  symmetric stake gives the 100 units the table expects; the second stake gives
  18334388853 units, where the table expects 28701684859.
\<close>

lemma calculatePoolUnits_issuance_rule_values:
  "calculatePoolUnits 0 0 0 (100 * One) (100 * One) = (100 * One, 100 * One, None)"
  "calculatePoolUnits (500 * One) (500 * One) (500 * One) (345 * One) (234 * One)
     = (68334388853, 18334388853, None)"
  by (simp_all add: calculatePoolUnits_def One_def)

end
